theory Spec2Isabelle
  imports Complex_Main "HOL-Library.AList"
begin

section \<open>The traffic counting engine of backend/server.py\<close>

text \<open>
  The module keeps five shared globals (lines 57-62) and one long-running worker,
  \<open>process_video\<close> (lines 107-245), next to the upload endpoint \<open>upload_video\<close>
  (lines 79-102). Every block written under \<open>with state_lock\<close> is modelled as one
  function on the shared state; the worker's locals \<open>cap\<close> and \<open>line_y\<close> form a second
  record. Python dictionaries are association lists in insertion order, Python integers
  are \<open>int\<close>, and the centre coordinates of a box (Python floats, compared exactly with
  the integer \<open>line_y\<close>) are \<open>real\<close>, which every finite float is; NaN is left out.
\<close>

subsection \<open>Data\<close>

text \<open>The exceptions that reach the model: a missing dictionary key, and \<open>file.save\<close>
  failing (line 92).\<close>

datatype error = KeyError | SaveError

type_synonym position = "real \<times> real"
type_synonym track = "position list"

text \<open>Lines 57-62: the shared state, in the order of its declaration.\<close>

record shared =
  current_video_source :: string
  video_needs_reset :: bool
  track_history :: "(int \<times> track) list"
  cumulative_counts :: "(string \<times> int) list"
  counted_ids :: "int set"

text \<open>Lines 110-111: the locals of the worker that survive from one cycle to the next.
  \<open>cap\<close> is represented by the path the capture was opened on.\<close>

record worker =
  cap :: string
  line_y :: int

text \<open>One row of the tracker's result (lines 148-150): the box as \<open>xywh\<close>, the track
  id and the class index.\<close>

record detection =
  box_x :: real
  box_y :: real
  box_w :: real
  box_h :: real
  track_id :: int
  cls :: int

subsection \<open>Configuration\<close>

definition UPLOAD_FOLDER :: string where
  "UPLOAD_FOLDER = ''uploads''"

text \<open>Lines 45-52.\<close>

definition TARGET_CLASSES :: "(int \<times> string) list" where
  "TARGET_CLASSES =
     [(0, ''Person''), (1, ''Bicycle''), (2, ''Car''),
      (3, ''Motorcycle''), (5, ''Bus''), (7, ''Truck'')]"

text \<open>Lines 61 and 97: \<open>{name: 0 for name in TARGET_CLASSES.values()}\<close>.\<close>

definition zero_counts :: "(string \<times> int) list" where
  "zero_counts = map (\<lambda>name. (name, 0)) (map snd TARGET_CLASSES)"

definition initial_shared :: shared where
  "initial_shared =
     \<lparr>current_video_source = ''traffic_video.mp4'', video_needs_reset = False,
      track_history = [], cumulative_counts = zero_counts, counted_ids = {}\<rparr>"

subsection \<open>Traffic status (lines 206-226)\<close>

text \<open>\<open>cumulative_counts[name]\<close> raises \<open>KeyError\<close> on a missing key.\<close>

definition count_of :: "(string \<times> int) list \<Rightarrow> string \<Rightarrow> error + int" where
  "count_of cs name =
     (case map_of cs name of None \<Rightarrow> Inl KeyError | Some n \<Rightarrow> Inr n)"

text \<open>Lines 206-212: the five lookups are made left to right and added.\<close>

definition total_cumulative :: "(string \<times> int) list \<Rightarrow> error + int" where
  "total_cumulative cs =
     (case count_of cs ''Car'' of Inl e \<Rightarrow> Inl e | Inr car \<Rightarrow>
       (case count_of cs ''Bus'' of Inl e \<Rightarrow> Inl e | Inr bus \<Rightarrow>
         (case count_of cs ''Truck'' of Inl e \<Rightarrow> Inl e | Inr truck \<Rightarrow>
           (case count_of cs ''Person'' of Inl e \<Rightarrow> Inl e | Inr person \<Rightarrow>
             (case count_of cs ''Bicycle'' of Inl e \<Rightarrow> Inl e | Inr bicycle \<Rightarrow>
                Inr (car + bus + truck + person + bicycle))))))"

text \<open>The message of the HIGH branch (line 226) starts with the character U+1F6A8 and a
  space; the character is written here as the four bytes of its UTF-8 encoding.\<close>

definition siren :: string where
  "siren = [CHR 0xF0, CHR 0x9F, CHR 0x9A, CHR 0xA8]"

record status =
  level :: string
  color :: string
  message :: string
  density :: int

text \<open>Lines 215-226 and the \<open>status\<close> dictionary of lines 238-243.\<close>

definition traffic_status :: "int \<Rightarrow> status" where
  "traffic_status tot =
     (if tot \<le> 10 then
        \<lparr>level = ''LOW'', color = ''green'', message = ''Smooth Traffic Flow'',
         density = tot\<rparr>
      else if tot > 10 \<and> tot \<le> 20 then
        \<lparr>level = ''MEDIUM'', color = ''orange'', message = ''Moderate Traffic Volume'',
         density = tot\<rparr>
      else
        \<lparr>level = ''HIGH'', color = ''red'', message = siren @ '' Heavy Traffic Volume'',
         density = tot\<rparr>)"

subsection \<open>Track history and line crossing (lines 162-176)\<close>

text \<open>Line 163: \<open>track_history\<close> is a \<open>defaultdict(list)\<close>, so reading an unknown id
  gives the empty list (and creates the entry, which the write-back below does).\<close>

definition history_of :: "(int \<times> track) list \<Rightarrow> int \<Rightarrow> track" where
  "history_of h tid = (case map_of h tid of None \<Rightarrow> [] | Some tr \<Rightarrow> tr)"

text \<open>Lines 164-166: append, then \<open>pop(0)\<close> once the list is longer than 30.\<close>

definition update_track :: "track \<Rightarrow> position \<Rightarrow> track" where
  "update_track tr p = (let tr1 = tr @ [p] in if length tr1 > 30 then tl tr1 else tr1)"

text \<open>Lines 168-173: \<open>track[-2][1]\<close> and \<open>track[-1][1]\<close> are read only when the list has
  more than one element, so both indices are in range.\<close>

definition crossing :: "track \<Rightarrow> int \<Rightarrow> bool" where
  "crossing tr ly =
     (if length tr > 1 then
        (let prev_y = snd (tr ! (length tr - 2));
             curr_y = snd (tr ! (length tr - 1))
         in prev_y < real_of_int ly \<and> real_of_int ly \<le> curr_y)
      else False)"

text \<open>Lines 174-176: the guarded increment.\<close>

definition register_crossing :: "int \<Rightarrow> string \<Rightarrow> shared \<Rightarrow> error + shared" where
  "register_crossing tid class_name s =
     (if tid \<notin> counted_ids s then
        (case count_of (cumulative_counts s) class_name of
           Inl e \<Rightarrow> Inl e
         | Inr n \<Rightarrow>
             Inr (s\<lparr>cumulative_counts := AList.update class_name (n + 1) (cumulative_counts s),
                    counted_ids := insert tid (counted_ids s)\<rparr>))
      else Inr s)"

text \<open>Lines 159-176: the lock block run for one detection of a target class.\<close>

definition process_detection :: "int \<Rightarrow> detection \<Rightarrow> string \<Rightarrow> shared \<Rightarrow> error + shared" where
  "process_detection ly d class_name s =
     (let cx = box_x d; cy = box_y d;
          tr = update_track (history_of (track_history s) (track_id d)) (cx, cy);
          s1 = s\<lparr>track_history := AList.update (track_id d) tr (track_history s)\<rparr>
      in if crossing tr ly then register_crossing (track_id d) class_name s1 else Inr s1)"

text \<open>Lines 152-176: the loop over the rows of the tracker's result; a row whose class
  is not a key of \<open>TARGET_CLASSES\<close> is skipped before its id is added to \<open>active_ids\<close>.\<close>

fun process_detections ::
  "int \<Rightarrow> detection list \<Rightarrow> int set \<times> shared \<Rightarrow> error + int set \<times> shared" where
  "process_detections ly [] (active_ids, s) = Inr (active_ids, s)"
| "process_detections ly (d # ds) (active_ids, s) =
     (case map_of TARGET_CLASSES (cls d) of
        None \<Rightarrow> process_detections ly ds (active_ids, s)
      | Some class_name \<Rightarrow>
          (case process_detection ly d class_name s of
             Inl e \<Rightarrow> Inl e
           | Inr s' \<Rightarrow> process_detections ly ds (insert (track_id d) active_ids, s')))"

subsection \<open>Cleanup of inactive tracks (lines 202-205)\<close>

text \<open>The loop runs over a copy of the keys and deletes each key that is not active.\<close>

definition cleanup_tracks :: "int set \<Rightarrow> shared \<Rightarrow> shared" where
  "cleanup_tracks active_ids s =
     s\<lparr>track_history :=
         fold (\<lambda>tid h. if tid \<notin> active_ids then AList.delete tid h else h)
           (map fst (track_history s)) (track_history s)\<rparr>"

subsection \<open>One frame (lines 144-245)\<close>

text \<open>The \<open>video_data\<close> event of lines 233-245, without the encoded image.\<close>

record video_data =
  counts :: "(string \<times> int) list"
  status :: status

text \<open>Line 151: the number of rows whose class is one of 2, 3, 5, 7.\<close>

definition current_density :: "detection list \<Rightarrow> int" where
  "current_density dets = int (length (filter (\<lambda>c. c \<in> set [2, 3, 5, 7]) (map cls dets)))"

text \<open>A result without track ids (line 147) is a frame with no rows. Drawing changes only
  the image and is left out.\<close>

definition process_frame ::
  "int \<Rightarrow> detection list \<Rightarrow> shared \<Rightarrow> error + shared \<times> video_data" where
  "process_frame ly dets s =
     (let density_now = current_density dets in
      case process_detections ly dets ({}, s) of
        Inl e \<Rightarrow> Inl e
      | Inr (active_ids, s1) \<Rightarrow>
          (let s2 = cleanup_tracks active_ids s1 in
           case total_cumulative (cumulative_counts s2) of
             Inl e \<Rightarrow> Inl e
           | Inr tot \<Rightarrow>
               Inr (s2, \<lparr>counts = cumulative_counts s2, status = traffic_status tot\<rparr>)))"

subsection \<open>The reset step and one cycle of the worker (lines 111-126)\<close>

text \<open>Lines 111 and 120: \<open>int(height // 1.5)\<close>. For a frame height that is a whole number
  the floor of \<open>height / 1.5\<close> is the floor of \<open>2 * height / 3\<close>.\<close>

definition line_for :: "int \<Rightarrow> int" where
  "line_for height = (2 * height) div 3"

text \<open>Lines 116-121. The frame height of the video behind a path belongs to the video
  library and is a parameter.\<close>

definition consume_reset :: "(string \<Rightarrow> int) \<Rightarrow> shared \<times> worker \<Rightarrow> shared \<times> worker" where
  "consume_reset frame_height sw =
     (case sw of (s, w) \<Rightarrow>
        if video_needs_reset s then
          (s\<lparr>video_needs_reset := False\<rparr>,
           \<lparr>cap = current_video_source s,
            line_y = line_for (frame_height (current_video_source s))\<rparr>)
        else (s, w))"

text \<open>Lines 110-111: the worker's locals when it starts.\<close>

definition start_worker :: "(string \<Rightarrow> int) \<Rightarrow> shared \<Rightarrow> worker" where
  "start_worker frame_height s =
     \<lparr>cap = current_video_source s,
      line_y = line_for (frame_height (current_video_source s))\<rparr>"

text \<open>What \<open>cap.read()\<close> and the tracker hand to one cycle: no frame (line 124), or the
  rows found in the frame.\<close>

datatype cap_read = EndOfStream | Frame "detection list"

definition cycle ::
  "(string \<Rightarrow> int) \<Rightarrow> cap_read \<Rightarrow> shared \<times> worker \<Rightarrow>
     error + (shared \<times> worker) \<times> video_data option" where
  "cycle frame_height inp sw =
     (case consume_reset frame_height sw of (s1, w1) \<Rightarrow>
        (case inp of
           EndOfStream \<Rightarrow> Inr ((s1, w1), None)
         | Frame dets \<Rightarrow>
             (case process_frame (line_y w1) dets s1 of
                Inl e \<Rightarrow> Inl e
              | Inr (s2, out) \<Rightarrow> Inr ((s2, w1), Some out))))"

subsection \<open>The upload endpoint (lines 79-102)\<close>

text \<open>\<open>request.files\<close> maps a field name to the file name of the uploaded part; the
  response is the JSON object and the status code.\<close>

record request =
  files :: "(string \<times> string) list"

record response =
  body :: "(string \<times> string) list"
  status_code :: nat

text \<open>\<open>secure_filename\<close> (werkzeug) and \<open>os.path.join\<close> are library functions and are
  parameters, and so is the file system: \<open>can_save path\<close> tells whether \<open>file.save\<close>
  (line 92) writes the file at \<open>path\<close> or raises, as it does for the bare folder that
  results when \<open>secure_filename\<close> empties the name. The exception leaves the handler
  before the lock block of lines 94-99, so the request has no response of its own and the
  shared state is the one it found.\<close>

definition upload_video ::
  "(string \<Rightarrow> string) \<Rightarrow> (string \<Rightarrow> string \<Rightarrow> string) \<Rightarrow> (string \<Rightarrow> bool) \<Rightarrow>
     request \<Rightarrow> shared \<Rightarrow> (error + response) \<times> shared" where
  "upload_video sec_name join_path can_save req s =
     (case map_of (files req) ''video'' of
        None \<Rightarrow> (Inr \<lparr>body = [(''error'', ''No file uploaded'')], status_code = 400\<rparr>, s)
      | Some fname \<Rightarrow>
          if fname = [] then
            (Inr \<lparr>body = [(''error'', ''No file selected'')], status_code = 400\<rparr>, s)
          else
            (let filename = sec_name fname;
                 filepath = join_path UPLOAD_FOLDER filename
             in if \<not> can_save filepath then (Inl SaveError, s)
                else
                  (Inr \<lparr>body = [(''message'', ''Upload successful'')], status_code = 200\<rparr>,
                   s\<lparr>current_video_source := filepath,
                     video_needs_reset := True,
                     cumulative_counts := zero_counts,
                     counted_ids := {},
                     track_history := []\<rparr>)))"

subsection \<open>Interleaving of the lock blocks\<close>

text \<open>
  The worker and the upload handlers meet only in the blocks under \<open>state_lock\<close>. The
  runs below are sequences of such blocks in any order: a request to the upload endpoint
  (lines 83-99), the worker's reset step (116-121), the block for one row of a frame
  (153-176) and the cleanup (202-205). They include every order the scheduler of the
  server allows, so what holds of all of them holds of the server.
\<close>

datatype action =
  Upload request
| ConsumeReset
| Detection detection
| Cleanup "int set"

record env =
  frame_height :: "string \<Rightarrow> int"
  secure_filename :: "string \<Rightarrow> string"
  path_join :: "string \<Rightarrow> string \<Rightarrow> string"
  save_ok :: "string \<Rightarrow> bool"

fun step :: "env \<Rightarrow> action \<Rightarrow> shared \<times> worker \<Rightarrow> error + shared \<times> worker" where
  "step e (Upload req) (s, w) =
     Inr (snd (upload_video (secure_filename e) (path_join e) (save_ok e) req s), w)"
| "step e ConsumeReset (s, w) = Inr (consume_reset (frame_height e) (s, w))"
| "step e (Detection d) (s, w) =
     (case map_of TARGET_CLASSES (cls d) of
        None \<Rightarrow> Inr (s, w)
      | Some class_name \<Rightarrow>
          (case process_detection (line_y w) d class_name s of
             Inl err \<Rightarrow> Inl err
           | Inr s' \<Rightarrow> Inr (s', w)))"
| "step e (Cleanup active_ids) (s, w) = Inr (cleanup_tracks active_ids s, w)"

fun run :: "env \<Rightarrow> action list \<Rightarrow> shared \<times> worker \<Rightarrow> error + shared \<times> worker" where
  "run e [] sw = Inr sw"
| "run e (a # as) sw = (case step e a sw of Inl err \<Rightarrow> Inl err | Inr sw' \<Rightarrow> run e as sw')"

text \<open>The actions of one counting epoch: everything but an upload.\<close>

fun epoch_action :: "action \<Rightarrow> bool" where
  "epoch_action (Upload req) = False"
| "epoch_action a = True"

subsection \<open>The schedule of the server\<close>




subsection \<open>Observations on the state\<close>

text \<open>\<open>sum(cumulative_counts.values())\<close>.\<close>

definition counts_total :: "(string \<times> int) list \<Rightarrow> int" where
  "counts_total cs = sum_list (map snd cs)"

definition all_zero :: "(string \<times> int) list \<Rightarrow> bool" where
  "all_zero cs = list_all (\<lambda>kv. snd kv = 0) cs"

text \<open>Every class name of \<open>TARGET_CLASSES\<close> is a key of the counts, as in every dictionary
  that lines 61 and 97 build.\<close>

definition has_class_keys :: "(string \<times> int) list \<Rightarrow> bool" where
  "has_class_keys cs = list_all (\<lambda>name. map_of cs name \<noteq> None) (map snd TARGET_CLASSES)"


definition windows_bounded :: "(int \<times> track) list \<Rightarrow> bool" where
  "windows_bounded h = list_all (\<lambda>kv. length (snd kv) \<le> 30) h"

subsection \<open>A small scenario\<close>

text \<open>Concrete inputs on which the properties below are exercised: a video 150 pixels
  high, so that the counting line lies at 100, a file system that stores every file but
  refuses to write over the upload folder itself, a \<open>secure_filename\<close> that empties the
  name \<open>..\<close> as werkzeug does, and a row for track \<open>tid\<close> of class \<open>c\<close>
  whose centre is at height \<open>y\<close>.\<close>

definition scenario_env :: env where
  "scenario_env =
     \<lparr>frame_height = (\<lambda>path. 150),
      secure_filename = (\<lambda>name. if name = ''..'' then [] else name),
      path_join = (\<lambda>dir name. dir @ ''/'' @ name),
      save_ok = (\<lambda>path. path \<noteq> ''uploads/'')\<rparr>"

definition scenario_worker :: worker where
  "scenario_worker = start_worker (frame_height scenario_env) initial_shared"

definition scenario_row :: "int \<Rightarrow> int \<Rightarrow> real \<Rightarrow> detection" where
  "scenario_row tid c y =
     \<lparr>box_x = 50, box_y = y, box_w = 10, box_h = 10, track_id = tid, cls = c\<rparr>"

section \<open>Properties\<close>

subsection \<open>Auxiliary facts\<close>

lemma length_update_track: "length tr \<le> 30 \<Longrightarrow> length (update_track tr p) \<le> 30"
  by (simp add: update_track_def Let_def)

lemma update_track_drop:
  "length tr \<le> 30 \<Longrightarrow> update_track tr p = drop (length (tr @ [p]) - 30) (tr @ [p])"
  by (cases tr) (auto simp: update_track_def Let_def drop_Cons' le_Suc_eq)

lemma update_track_full: "length tr = 30 \<Longrightarrow> update_track tr p = tl tr @ [p]"
  by (cases tr) (simp_all add: update_track_def Let_def)

lemma update_track_short: "length tr < 30 \<Longrightarrow> update_track tr p = tr @ [p]"
  by (simp add: update_track_def Let_def)

lemma fold_update_track:
  "length tr \<le> 30 \<Longrightarrow>
   fold (\<lambda>p t. update_track t p) ps tr = drop (length (tr @ ps) - 30) (tr @ ps)"
proof (induction ps arbitrary: tr)
  case Nil
  then show ?case by simp
next
  case (Cons p ps)
  have len: "length (update_track tr p) \<le> 30"
    using Cons.prems by (rule length_update_track)
  have step: "fold (\<lambda>p t. update_track t p) (p # ps) tr
        = drop (length (update_track tr p @ ps) - 30) (update_track tr p @ ps)"
    using Cons.IH [OF len] by simp
  show ?case
  proof (cases "length tr = 30")
    case True
    then obtain q qs where tr: "tr = q # qs" by (cases tr) auto
    with True have qs: "length qs = 29" by simp
    have "update_track tr p = qs @ [p]"
      using update_track_full [OF True] tr by simp
    then have "fold (\<lambda>p t. update_track t p) (p # ps) tr
        = drop (length ((qs @ [p]) @ ps) - 30) ((qs @ [p]) @ ps)"
      using step by simp
    also have "\<dots> = drop (length (tr @ p # ps) - 30) (tr @ p # ps)"
      using qs tr by (simp add: drop_Cons')
    finally show ?thesis .
  next
    case False
    with Cons.prems have "length tr < 30" by simp
    then have "update_track tr p = tr @ [p]" by (rule update_track_short)
    then show ?thesis using step by simp
  qed
qed

lemma delete_as_filter: "AList.delete k h = filter (\<lambda>kv. fst kv \<noteq> k) h"
  by (induction h) auto

lemma fold_cleanup:
  "fold (\<lambda>tid h. if tid \<notin> A then AList.delete tid h else h) ks h
   = filter (\<lambda>kv. fst kv \<in> A \<or> fst kv \<notin> set ks) h"
proof (induction ks arbitrary: h)
  case Nil
  then show ?case by simp
next
  case (Cons k ks)
  show ?case
  proof (cases "k \<in> A")
    case True
    then show ?thesis using Cons.IH [of h]
      by (auto intro!: filter_cong)
  next
    case False
    then show ?thesis using Cons.IH [of "AList.delete k h"]
      by (auto simp: delete_as_filter intro!: filter_cong)
  qed
qed

lemma cleanup_tracks_filter:
  "track_history (cleanup_tracks A s) = filter (\<lambda>kv. fst kv \<in> A) (track_history s)"
  unfolding cleanup_tracks_def by (simp add: fold_cleanup cong: filter_cong)

lemma map_of_filter_key:
  "map_of (filter (\<lambda>kv. fst kv \<in> A) h) k = (if k \<in> A then map_of h k else None)"
  by (induction h) auto

lemma crossing_update_track:
  "crossing (update_track tr p) ly \<longleftrightarrow>
     tr \<noteq> [] \<and> snd (last tr) < real_of_int ly \<and> real_of_int ly \<le> snd p"
proof (cases "tr = []")
  case True
  then show ?thesis by (simp add: crossing_def update_track_def)
next
  case False
  show ?thesis
  proof (cases "length tr < 30")
    case True
    with False show ?thesis
      by (simp add: crossing_def update_track_def Let_def nth_append last_conv_nth)
  next
    case long: False
    then obtain q qs where tr: "tr = q # qs"
      by (cases tr) auto
    with long have len: "29 \<le> length qs" by simp
    then have qs: "qs \<noteq> []" by auto
    with len show ?thesis unfolding tr
      by (simp add: crossing_def update_track_def Let_def nth_append last_conv_nth)
  qed
qed

lemma crossing_last:
  "crossing tr ly \<longleftrightarrow>
     2 \<le> length tr \<and> snd (last (butlast tr)) < real_of_int ly \<and> real_of_int ly \<le> snd (last tr)"
proof (cases "2 \<le> length tr")
  case True
  then have "tr \<noteq> []" "length (butlast tr) \<noteq> 0" by auto
  then have "tr \<noteq> []" "butlast tr \<noteq> []" by (simp_all del: length_butlast)
  then have "last tr = tr ! (length tr - 1)" "last (butlast tr) = tr ! (length tr - 2)"
    using True by (simp_all add: last_conv_nth nth_butlast numeral_2_eq_2)
  with True show ?thesis by (simp add: crossing_def Let_def)
next
  case False
  then show ?thesis by (simp add: crossing_def)
qed

lemma history_of_update: "history_of (AList.update k v h) k = v"
  by (simp add: history_of_def update_conv')

lemma register_crossing_counted:
  "tid \<in> counted_ids s \<Longrightarrow> register_crossing tid cn s = Inr s"
  by (simp add: register_crossing_def)

lemma register_crossing_fresh:
  "tid \<notin> counted_ids s \<Longrightarrow> map_of (cumulative_counts s) cn = Some n \<Longrightarrow>
   register_crossing tid cn s =
     Inr (s\<lparr>cumulative_counts := AList.update cn (n + 1) (cumulative_counts s),
            counted_ids := insert tid (counted_ids s)\<rparr>)"
  by (simp add: register_crossing_def count_of_def)

lemma register_crossing_fields:
  "register_crossing tid cn s = Inr s' \<Longrightarrow>
     track_history s' = track_history s \<and> counted_ids s \<subseteq> counted_ids s' \<and>
     current_video_source s' = current_video_source s \<and>
     video_needs_reset s' = video_needs_reset s"
  by (auto simp: register_crossing_def split: if_splits sum.splits)

lemma process_detection_history:
  "process_detection ly d cn s = Inr s' \<Longrightarrow>
   track_history s' =
     AList.update (track_id d)
       (update_track (history_of (track_history s) (track_id d)) (box_x d, box_y d))
       (track_history s)"
  by (auto simp: process_detection_def Let_def split: if_splits dest!: register_crossing_fields)

lemma process_detection_no_crossing:
  "\<not> crossing (update_track (history_of (track_history s) (track_id d)) (box_x d, box_y d)) ly \<Longrightarrow>
   process_detection ly d cn s =
     Inr (s\<lparr>track_history :=
             AList.update (track_id d)
               (update_track (history_of (track_history s) (track_id d)) (box_x d, box_y d))
               (track_history s)\<rparr>)"
  by (simp add: process_detection_def Let_def)

lemma process_detection_crossing:
  "crossing (update_track (history_of (track_history s) (track_id d)) (box_x d, box_y d)) ly \<Longrightarrow>
   process_detection ly d cn s =
     register_crossing (track_id d) cn
       (s\<lparr>track_history :=
             AList.update (track_id d)
               (update_track (history_of (track_history s) (track_id d)) (box_x d, box_y d))
               (track_history s)\<rparr>)"
  by (simp add: process_detection_def Let_def)

lemma set_update_subset: "set (AList.update k v h) \<subseteq> insert (k, v) (set h)"
  by (induction h) auto

lemma history_of_bounded: "windows_bounded h \<Longrightarrow> length (history_of h k) \<le> 30"
  by (auto simp: windows_bounded_def history_of_def list_all_iff split: option.splits
      dest!: map_of_SomeD)

lemma windows_bounded_update:
  "windows_bounded h \<Longrightarrow> length v \<le> 30 \<Longrightarrow> windows_bounded (AList.update k v h)"
  using set_update_subset [of k v h] by (auto simp: windows_bounded_def list_all_iff)

lemma windows_bounded_detection:
  assumes "windows_bounded (track_history s)" and "process_detection ly d cn s = Inr s'"
  shows "windows_bounded (track_history s')"
  unfolding process_detection_history [OF assms(2)]
  by (intro windows_bounded_update assms(1) length_update_track history_of_bounded)

lemma windows_bounded_cleanup:
  "windows_bounded (track_history s) \<Longrightarrow> windows_bounded (track_history (cleanup_tracks A s))"
  by (simp add: cleanup_tracks_filter windows_bounded_def list_all_iff)

lemma upload_video_history:
  "windows_bounded (track_history s) \<Longrightarrow>
   windows_bounded (track_history (snd (upload_video sn jp sv req s)))"
  by (simp add: upload_video_def Let_def windows_bounded_def split: option.splits)

lemma consume_reset_fields:
  "consume_reset fh (s, w) = (s', w') \<Longrightarrow>
     track_history s' = track_history s \<and> cumulative_counts s' = cumulative_counts s \<and>
     counted_ids s' = counted_ids s \<and> current_video_source s' = current_video_source s"
  by (auto simp: consume_reset_def split: if_splits)

lemma windows_bounded_step:
  assumes "windows_bounded (track_history (fst sw))" and "step e a sw = Inr sw'"
  shows "windows_bounded (track_history (fst sw'))"
proof (cases sw)
  case (Pair s w)
  show ?thesis
  proof (cases a)
    case (Upload req)
    with assms Pair show ?thesis by (auto simp: upload_video_history)
  next
    case ConsumeReset
    with assms Pair show ?thesis
      by (cases "consume_reset (frame_height e) (s, w)") (auto dest: consume_reset_fields)
  next
    case (Detection d)
    with assms Pair show ?thesis
      by (auto split: option.splits sum.splits dest: windows_bounded_detection)
  next
    case (Cleanup A)
    with assms Pair show ?thesis by (auto simp: windows_bounded_cleanup)
  qed
qed

lemma windows_bounded_run:
  "windows_bounded (track_history (fst sw)) \<Longrightarrow> run e acts sw = Inr sw' \<Longrightarrow>
   windows_bounded (track_history (fst sw'))"
proof (induction acts arbitrary: sw)
  case Nil
  then show ?case by simp
next
  case (Cons a acts)
  from Cons.prems(2) obtain sw1 where s1: "step e a sw = Inr sw1" and r: "run e acts sw1 = Inr sw'"
    by (auto split: sum.splits)
  from windows_bounded_step [OF Cons.prems(1) s1] r show ?case by (rule Cons.IH)
qed

lemma sum_snd_update:
  "map_of cs k = Some n \<Longrightarrow>
   sum_list (map snd (AList.update k (n + 1) cs)) = sum_list (map snd cs) + (1::int)"
  by (induction cs) (auto split: if_splits)

lemma register_crossing_total:
  "register_crossing tid cn s = Inr s' \<Longrightarrow>
   counts_total (cumulative_counts s) \<le> counts_total (cumulative_counts s')"
  by (auto simp: register_crossing_def count_of_def counts_total_def sum_snd_update
      split: if_splits option.splits)

lemma process_detection_total:
  "process_detection ly d cn s = Inr s' \<Longrightarrow>
   counts_total (cumulative_counts s) \<le> counts_total (cumulative_counts s')"
  by (auto simp: process_detection_def Let_def split: if_splits dest!: register_crossing_total)

lemma process_detection_counted:
  "process_detection ly d cn s = Inr s' \<Longrightarrow> counted_ids s \<subseteq> counted_ids s'"
  by (auto simp: process_detection_def Let_def split: if_splits dest!: register_crossing_fields)

lemma process_detection_newly_counted:
  assumes "process_detection ly d cn s = Inr s'" and "tid \<in> counted_ids s'"
    and "tid \<notin> counted_ids s"
  shows "tid = track_id d \<and> crossing (history_of (track_history s') (track_id d)) ly"
proof -
  let ?tr = "update_track (history_of (track_history s) (track_id d)) (box_x d, box_y d)"
  let ?s1 = "s\<lparr>track_history := AList.update (track_id d) ?tr (track_history s)\<rparr>"
  have h: "history_of (track_history s') (track_id d) = ?tr"
    unfolding process_detection_history [OF assms(1)] by (rule history_of_update)
  have c: "crossing ?tr ly"
  proof (rule ccontr)
    assume "\<not> crossing ?tr ly"
    from process_detection_no_crossing [OF this, of cn] assms show False by auto
  qed
  with assms(1) have "register_crossing (track_id d) cn ?s1 = Inr s'"
    by (simp add: process_detection_crossing)
  then have "counted_ids s' \<subseteq> insert (track_id d) (counted_ids s)"
    by (auto simp: register_crossing_def split: if_splits sum.splits)
  with assms(2,3) have "tid = track_id d" by blast
  with c h show ?thesis by simp
qed

lemma process_detection_already_counted:
  "track_id d \<in> counted_ids s \<Longrightarrow> process_detection ly d cn s = Inr s' \<Longrightarrow>
   cumulative_counts s' = cumulative_counts s \<and> counted_ids s' = counted_ids s"
  by (auto simp: process_detection_def Let_def register_crossing_def split: if_splits)

lemma cleanup_tracks_fields:
  "cumulative_counts (cleanup_tracks A s) = cumulative_counts s"
  "counted_ids (cleanup_tracks A s) = counted_ids s"
  "current_video_source (cleanup_tracks A s) = current_video_source s"
  "video_needs_reset (cleanup_tracks A s) = video_needs_reset s"
  by (simp_all add: cleanup_tracks_def)

lemma epoch_step_total:
  assumes "epoch_action a" and "step e a sw = Inr sw'"
  shows "counts_total (cumulative_counts (fst sw)) \<le> counts_total (cumulative_counts (fst sw'))
         \<and> counted_ids (fst sw) \<subseteq> counted_ids (fst sw')"
proof (cases sw)
  case (Pair s w)
  show ?thesis
  proof (cases a)
    case (Upload req)
    with assms show ?thesis by simp
  next
    case ConsumeReset
    with assms Pair show ?thesis
      by (cases "consume_reset (frame_height e) (s, w)") (auto dest: consume_reset_fields)
  next
    case (Detection d)
    with assms Pair show ?thesis
      using process_detection_total process_detection_counted
      by (fastforce split: option.splits sum.splits)
  next
    case (Cleanup A)
    with assms Pair show ?thesis by (auto simp: cleanup_tracks_fields)
  qed
qed

lemma epoch_run_total:
  "list_all epoch_action acts \<Longrightarrow> run e acts sw = Inr sw' \<Longrightarrow>
   counts_total (cumulative_counts (fst sw)) \<le> counts_total (cumulative_counts (fst sw'))
   \<and> counted_ids (fst sw) \<subseteq> counted_ids (fst sw')"
proof (induction acts arbitrary: sw)
  case Nil
  then show ?case by simp
next
  case (Cons a acts)
  from Cons.prems(2) obtain sw1 where s1: "step e a sw = Inr sw1" and r: "run e acts sw1 = Inr sw'"
    by (auto split: sum.splits)
  from Cons.prems(1) have a: "epoch_action a" and as: "list_all epoch_action acts" by simp_all
  from epoch_step_total [OF a s1] Cons.IH [OF as r] show ?case by force
qed

lemma process_detections_total:
  "process_detections ly ds (A, s) = Inr (A', s') \<Longrightarrow>
   counts_total (cumulative_counts s) \<le> counts_total (cumulative_counts s')"
proof (induction ds arbitrary: A s)
  case Nil
  then show ?case by simp
next
  case (Cons d ds)
  show ?case
  proof (cases "map_of TARGET_CLASSES (cls d)")
    case None
    with Cons.prems have "process_detections ly ds (A, s) = Inr (A', s')" by simp
    then show ?thesis by (rule Cons.IH)
  next
    case (Some cn)
    with Cons.prems obtain s1 where p: "process_detection ly d cn s = Inr s1"
      and r: "process_detections ly ds (insert (track_id d) A, s1) = Inr (A', s')"
      by (auto split: sum.splits)
    from process_detection_total [OF p] Cons.IH [OF r] show ?thesis by simp
  qed
qed

lemma process_frame_total:
  "process_frame ly dets s = Inr (s', out) \<Longrightarrow>
   counts_total (cumulative_counts s) \<le> counts_total (cumulative_counts s')"
  by (auto simp: process_frame_def Let_def cleanup_tracks_fields
      split: sum.splits prod.splits dest!: process_detections_total)

lemma cycle_total:
  assumes "cycle fh inp (s, w) = Inr ((s', w'), out)"
  shows "counts_total (cumulative_counts s) \<le> counts_total (cumulative_counts s')"
proof -
  obtain s1 w1 where c: "consume_reset fh (s, w) = (s1, w1)"
    by (cases "consume_reset fh (s, w)")
  from consume_reset_fields [OF c] have eq: "cumulative_counts s1 = cumulative_counts s" by simp
  show ?thesis
  proof (cases inp)
    case EndOfStream
    with assms c eq show ?thesis by (simp add: cycle_def)
  next
    case (Frame dets)
    with assms c obtain out' where "process_frame (line_y w1) dets s1 = Inr (s', out')"
      by (auto simp: cycle_def split: sum.splits)
    from process_frame_total [OF this] eq show ?thesis by simp
  qed
qed

lemma zero_counts_total: "counts_total zero_counts = 0" "all_zero zero_counts"
  "has_class_keys zero_counts"
  by (simp_all add: counts_total_def all_zero_def has_class_keys_def zero_counts_def
      TARGET_CLASSES_def)

lemma upload_video_accepted:
  "map_of (files req) ''video'' = Some fname \<Longrightarrow> fname \<noteq> [] \<Longrightarrow>
   sv (jp UPLOAD_FOLDER (sn fname)) \<Longrightarrow>
   upload_video sn jp sv req s =
     (Inr \<lparr>body = [(''message'', ''Upload successful'')], status_code = 200\<rparr>,
      s\<lparr>current_video_source := jp UPLOAD_FOLDER (sn fname), video_needs_reset := True,
        cumulative_counts := zero_counts, counted_ids := {}, track_history := []\<rparr>)"
  by (simp add: upload_video_def Let_def)

lemma upload_video_save_fails:
  "map_of (files req) ''video'' = Some fname \<Longrightarrow> fname \<noteq> [] \<Longrightarrow>
   \<not> sv (jp UPLOAD_FOLDER (sn fname)) \<Longrightarrow>
   upload_video sn jp sv req s = (Inl SaveError, s)"
  by (simp add: upload_video_def Let_def)

lemma upload_video_cases:
  "snd (upload_video sn jp sv req s) = s \<or>
   (\<exists>path. snd (upload_video sn jp sv req s) =
      s\<lparr>current_video_source := path, video_needs_reset := True,
        cumulative_counts := zero_counts, counted_ids := {}, track_history := []\<rparr>)"
  by (auto simp: upload_video_def Let_def split: option.splits)


lemma consume_reset_idle: "\<not> video_needs_reset s \<Longrightarrow> consume_reset fh (s, w) = (s, w)"
  by (simp add: consume_reset_def)









lemmas scenario_defs =
  scenario_env_def scenario_worker_def scenario_row_def start_worker_def line_for_def
  initial_shared_def zero_counts_def TARGET_CLASSES_def
  process_detection_def update_track_def history_of_def crossing_def register_crossing_def
  count_of_def Let_def

subsection \<open>Traffic status\<close>

text \<open>
  C3 (as the code has it). For every non-negative total the status is LOW, green,
  "Smooth Traffic Flow" from 0 to 10, MEDIUM, orange, "Moderate Traffic Volume" from 11
  to 20, and HIGH, red from 21 on, where the message is the character U+1F6A8, a space
  and "Heavy Traffic Volume"; 10 is LOW, 11 and 20 are MEDIUM, 21 is HIGH.
\<close>

theorem traffic_status_bands:
  "0 \<le> tot \<Longrightarrow>
     (tot \<le> 10 \<longrightarrow>
        level (traffic_status tot) = ''LOW'' \<and> color (traffic_status tot) = ''green'' \<and>
        message (traffic_status tot) = ''Smooth Traffic Flow'') \<and>
     (11 \<le> tot \<and> tot \<le> 20 \<longrightarrow>
        level (traffic_status tot) = ''MEDIUM'' \<and>
        color (traffic_status tot) = ''orange'' \<and>
        message (traffic_status tot) = ''Moderate Traffic Volume'') \<and>
     (21 \<le> tot \<longrightarrow>
        level (traffic_status tot) = ''HIGH'' \<and> color (traffic_status tot) = ''red'' \<and>
        message (traffic_status tot) = siren @ '' Heavy Traffic Volume'') \<and>
     level (traffic_status 10) = ''LOW'' \<and> level (traffic_status 11) = ''MEDIUM'' \<and>
     level (traffic_status 20) = ''MEDIUM'' \<and> level (traffic_status 21) = ''HIGH''"
  by (simp add: traffic_status_def)

theorem traffic_status_bands_witness:
  "(0::int) \<le> 5 \<and> (5::int) \<le> 10 \<and>
   level (traffic_status 5) = ''LOW'' \<and> color (traffic_status 5) = ''green'' \<and>
   message (traffic_status 5) = ''Smooth Traffic Flow'' \<and>
   (0::int) \<le> 15 \<and> (11::int) \<le> 15 \<and> (15::int) \<le> 20 \<and>
   level (traffic_status 15) = ''MEDIUM'' \<and> color (traffic_status 15) = ''orange'' \<and>
   message (traffic_status 15) = ''Moderate Traffic Volume'' \<and>
   (0::int) \<le> 25 \<and> (21::int) \<le> 25 \<and>
   level (traffic_status 25) = ''HIGH'' \<and> color (traffic_status 25) = ''red'' \<and>
   message (traffic_status 25) = siren @ '' Heavy Traffic Volume'' \<and>
   level (traffic_status 10) = ''LOW'' \<and> level (traffic_status 11) = ''MEDIUM'' \<and>
   level (traffic_status 20) = ''MEDIUM'' \<and> level (traffic_status 21) = ''HIGH''"
  using traffic_status_bands [of 5] traffic_status_bands [of 15] traffic_status_bands [of 25]
  by simp

text \<open>C3 as stated fails at 21: the message is not the bare "Heavy Traffic Volume".\<close>

theorem traffic_status_message_counterexample:
  "message (traffic_status 21) \<noteq> ''Heavy Traffic Volume''"
  by (simp add: traffic_status_def siren_def)

subsection \<open>History window\<close>

text \<open>
  C7. Feeding any sequence of positions to a track, starting from the empty list, keeps
  the last 30 of them in order, so the window never holds more than 30; one update of a
  window of at most 30 appends the position and drops the oldest entry when that makes 31;
  and in every run of the system from a state whose windows hold at most 30 positions,
  every window still holds at most 30.
\<close>

theorem history_window_at_most_30:
  "length (fold (\<lambda>p t. update_track t p) ps []) \<le> 30 \<and>
   fold (\<lambda>p t. update_track t p) ps [] = drop (length ps - 30) ps \<and>
   (length tr \<le> 30 \<longrightarrow>
      length (update_track tr p) \<le> 30 \<and>
      update_track tr p = drop (length (tr @ [p]) - 30) (tr @ [p])) \<and>
   (windows_bounded (track_history s) \<and> run e acts (s, w) = Inr (s', w') \<longrightarrow>
      windows_bounded (track_history s'))"
proof (intro conjI impI)
  have f: "fold (\<lambda>p t. update_track t p) ps [] = drop (length ps - 30) ps"
    using fold_update_track [of "[]" ps] by simp
  show "fold (\<lambda>p t. update_track t p) ps [] = drop (length ps - 30) ps" by (rule f)
  show "length (fold (\<lambda>p t. update_track t p) ps []) \<le> 30" unfolding f by simp
next
  assume "length tr \<le> 30"
  then show "length (update_track tr p) \<le> 30"
    and "update_track tr p = drop (length (tr @ [p]) - 30) (tr @ [p])"
    by (rule length_update_track, rule update_track_drop)
next
  assume "windows_bounded (track_history s) \<and> run e acts (s, w) = Inr (s', w')"
  then show "windows_bounded (track_history s')"
    using windows_bounded_run [of "(s, w)" e acts "(s', w')"] by simp
qed

theorem history_window_at_most_30_witness:
  "length [(50::real, 95::real)] \<le> 30 \<and>
   windows_bounded (track_history initial_shared) \<and>
   run scenario_env [Detection (scenario_row 7 2 95)] (initial_shared, scenario_worker)
     = Inr (initial_shared\<lparr>track_history := [(7, [(50, 95)])]\<rparr>, scenario_worker) \<and>
   length (update_track [(50, 95)] (50, 105)) \<le> 30 \<and>
   fold (\<lambda>p t. update_track t p) [(50, 95), (50, 105)] [] = [(50, 95), (50, 105)] \<and>
   windows_bounded (track_history (initial_shared\<lparr>track_history := [(7, [(50, 95)])]\<rparr>))"
proof -
  have l: "length [(50::real, 95::real)] \<le> 30" by simp
  have b: "windows_bounded (track_history initial_shared)"
    by (simp add: windows_bounded_def initial_shared_def)
  have r: "run scenario_env [Detection (scenario_row 7 2 95)] (initial_shared, scenario_worker)
     = Inr (initial_shared\<lparr>track_history := [(7, [(50, 95)])]\<rparr>, scenario_worker)"
    by (simp add: scenario_defs)
  from l b r
    history_window_at_most_30 [where ps = "[(50, 95), (50, 105)]" and tr = "[(50, 95)]"
      and p = "(50, 105)" and s = initial_shared and e = scenario_env
      and acts = "[Detection (scenario_row 7 2 95)]" and w = scenario_worker
      and s' = "initial_shared\<lparr>track_history := [(7, [(50, 95)])]\<rparr>"
      and w' = scenario_worker]
  show ?thesis by simp
qed

subsection \<open>Cleanup of inactive tracks\<close>

text \<open>
  C8. After the cleanup with the frame's active ids, no key of the history lies outside
  the active ids, every active id that was a key keeps its window unchanged, and the
  counted ids (and the counts) are untouched.
\<close>

theorem cleanup_keeps_active_only:
  "fst ` set (track_history (cleanup_tracks active_ids s)) \<subseteq> active_ids \<and>
   (\<forall>tid \<in> active_ids \<inter> fst ` set (track_history s).
      map_of (track_history (cleanup_tracks active_ids s)) tid = map_of (track_history s) tid) \<and>
   counted_ids (cleanup_tracks active_ids s) = counted_ids s \<and>
   cumulative_counts (cleanup_tracks active_ids s) = cumulative_counts s"
proof (intro conjI ballI)
  show "fst ` set (track_history (cleanup_tracks active_ids s)) \<subseteq> active_ids"
    by (auto simp: cleanup_tracks_filter)
  show "counted_ids (cleanup_tracks active_ids s) = counted_ids s"
    and "cumulative_counts (cleanup_tracks active_ids s) = cumulative_counts s"
    by (simp_all add: cleanup_tracks_def)
next
  fix tid assume "tid \<in> active_ids \<inter> fst ` set (track_history s)"
  then show "map_of (track_history (cleanup_tracks active_ids s)) tid
             = map_of (track_history s) tid"
    by (simp add: cleanup_tracks_filter map_of_filter_key)
qed

theorem cleanup_keeps_active_only_witness:
  "7 \<in> {7} \<inter> fst ` set (track_history (initial_shared\<lparr>track_history := [(7, [(50, 95)]), (8, [(20, 30)])]\<rparr>)) \<and>
   fst ` set (track_history (cleanup_tracks {7}
       (initial_shared\<lparr>track_history := [(7, [(50, 95)]), (8, [(20, 30)])]\<rparr>))) \<subseteq> {7} \<and>
   map_of (track_history (cleanup_tracks {7}
       (initial_shared\<lparr>track_history := [(7, [(50, 95)]), (8, [(20, 30)])]\<rparr>))) 7
     = Some [(50, 95)]"
proof -
  let ?s = "initial_shared\<lparr>track_history := [(7, [(50, 95)]), (8, [(20, 30)])]\<rparr>"
  have m: "7 \<in> {7} \<inter> fst ` set (track_history ?s)" by simp
  from cleanup_keeps_active_only [of "{7}" ?s]
  have sub: "fst ` set (track_history (cleanup_tracks {7} ?s)) \<subseteq> {7}"
    and keep: "\<forall>tid \<in> {7} \<inter> fst ` set (track_history ?s).
      map_of (track_history (cleanup_tracks {7} ?s)) tid = map_of (track_history ?s) tid"
    by blast+
  from keep m have "map_of (track_history (cleanup_tracks {7} ?s)) 7 = map_of (track_history ?s) 7"
    by (rule bspec)
  with m sub show ?thesis by simp
qed

subsection \<open>Rejected uploads\<close>

text \<open>
  C10. An upload request without a "video" part, or whose "video" part has an empty file
  name, is answered with status 400 and an error body, and the shared state (source path,
  reset flag, counts, counted ids, history) is exactly what it was.
\<close>

theorem upload_rejected_leaves_state:
  "map_of (files req) ''video'' = None \<or> map_of (files req) ''video'' = Some [] \<Longrightarrow>
   (\<exists>r. fst (upload_video sn jp sv req s) = Inr r \<and>
        status_code r = 400 \<and> map_of (body r) ''error'' \<noteq> None) \<and>
   snd (upload_video sn jp sv req s) = s"
  by (auto simp: upload_video_def)

theorem upload_rejected_leaves_state_witness:
  "map_of (files \<lparr>files = [(''image'', ''a.png'')]\<rparr>) ''video'' = None \<and>
   (\<exists>r. fst (upload_video (secure_filename scenario_env) (path_join scenario_env) (save_ok scenario_env)
           \<lparr>files = [(''image'', ''a.png'')]\<rparr> initial_shared) = Inr r \<and>
        status_code r = 400 \<and> map_of (body r) ''error'' \<noteq> None) \<and>
   snd (upload_video (secure_filename scenario_env) (path_join scenario_env) (save_ok scenario_env)
      \<lparr>files = [(''image'', ''a.png'')]\<rparr> initial_shared) = initial_shared \<and>
   map_of (files \<lparr>files = [(''video'', [])]\<rparr>) ''video'' = Some [] \<and>
   (\<exists>r. fst (upload_video (secure_filename scenario_env) (path_join scenario_env) (save_ok scenario_env)
           \<lparr>files = [(''video'', [])]\<rparr> initial_shared) = Inr r \<and>
        status_code r = 400 \<and> map_of (body r) ''error'' \<noteq> None) \<and>
   snd (upload_video (secure_filename scenario_env) (path_join scenario_env) (save_ok scenario_env)
      \<lparr>files = [(''video'', [])]\<rparr> initial_shared) = initial_shared"
proof -
  have a: "map_of (files \<lparr>files = [(''image'', ''a.png'')]\<rparr>) ''video'' = None" by simp
  have b: "map_of (files \<lparr>files = [(''video'', [])]\<rparr>) ''video'' = Some []" by simp
  from a b
    upload_rejected_leaves_state [OF disjI1, OF a, of "secure_filename scenario_env"
      "path_join scenario_env" "save_ok scenario_env" initial_shared]
    upload_rejected_leaves_state [OF disjI2, OF b, of "secure_filename scenario_env"
      "path_join scenario_env" "save_ok scenario_env" initial_shared]
  show ?thesis by blast
qed

subsection \<open>Line crossing\<close>

text \<open>
  C4. The crossing test of lines 168-173 holds exactly when the track has at least two
  recorded positions and the second-to-last height is above the line while the last is on
  or below it. A track with fewer than two positions never crosses, nor does one whose
  last height is not below the previous one (upward or lateral motion). In terms of the
  window before the update and the new position, the test fires if and only if the window
  was not empty, its last height was above the line and the new height is on or below it,
  also when the update evicts the oldest entry. A first sample, and a sample that is not
  lower than the previous one, leaves the counts and the counted ids unchanged; and
  whenever a detection changes the counts, the test held on the recorded positions and
  the track had not been counted.
\<close>

theorem crossing_only_downward:
  "(crossing tr ly \<longleftrightarrow>
      2 \<le> length tr \<and> snd (last (butlast tr)) < real_of_int ly \<and>
      real_of_int ly \<le> snd (last tr)) \<and>
   (length tr1 < 2 \<longrightarrow> \<not> crossing tr1 ly1) \<and>
   (2 \<le> length tr2 \<and> snd (last tr2) \<le> snd (last (butlast tr2)) \<longrightarrow> \<not> crossing tr2 ly2) \<and>
   (crossing (update_track tr3 p) ly3 \<longleftrightarrow>
      tr3 \<noteq> [] \<and> snd (last tr3) < real_of_int ly3 \<and> real_of_int ly3 \<le> snd p) \<and>
   (history_of (track_history s) (track_id d) = [] \<or>
    box_y d \<le> snd (last (history_of (track_history s) (track_id d))) \<longrightarrow>
      (\<exists>s'. process_detection ly4 d cn s = Inr s' \<and>
            cumulative_counts s' = cumulative_counts s \<and> counted_ids s' = counted_ids s)) \<and>
   (process_detection ly5 d5 cn5 s5 = Inr s5' \<and> cumulative_counts s5' \<noteq> cumulative_counts s5 \<longrightarrow>
      crossing (history_of (track_history s5') (track_id d5)) ly5 \<and>
      track_id d5 \<notin> counted_ids s5)"
proof (intro conjI impI)
  show "crossing tr ly \<longleftrightarrow>
      2 \<le> length tr \<and> snd (last (butlast tr)) < real_of_int ly \<and>
      real_of_int ly \<le> snd (last tr)"
    by (rule crossing_last)
  show "crossing (update_track tr3 p) ly3 \<longleftrightarrow>
      tr3 \<noteq> [] \<and> snd (last tr3) < real_of_int ly3 \<and> real_of_int ly3 \<le> snd p"
    by (rule crossing_update_track)
next
  assume "length tr1 < 2"
  then show "\<not> crossing tr1 ly1" by (simp add: crossing_last)
next
  assume "2 \<le> length tr2 \<and> snd (last tr2) \<le> snd (last (butlast tr2))"
  then show "\<not> crossing tr2 ly2" by (auto simp: crossing_last)
next
  assume "history_of (track_history s) (track_id d) = [] \<or>
    box_y d \<le> snd (last (history_of (track_history s) (track_id d)))"
  then have "\<not> crossing (update_track (history_of (track_history s) (track_id d))
      (box_x d, box_y d)) ly4"
    by (auto simp: crossing_update_track)
  from process_detection_no_crossing [OF this]
  show "\<exists>s'. process_detection ly4 d cn s = Inr s' \<and>
            cumulative_counts s' = cumulative_counts s \<and> counted_ids s' = counted_ids s"
    by simp
next
  assume a: "process_detection ly5 d5 cn5 s5 = Inr s5' \<and>
    cumulative_counts s5' \<noteq> cumulative_counts s5"
  let ?tr = "update_track (history_of (track_history s5) (track_id d5)) (box_x d5, box_y d5)"
  from a have p: "process_detection ly5 d5 cn5 s5 = Inr s5'" by simp
  have h: "history_of (track_history s5') (track_id d5) = ?tr"
    unfolding process_detection_history [OF p] by (rule history_of_update)
  have c: "crossing ?tr ly5"
  proof (rule ccontr)
    assume "\<not> crossing ?tr ly5"
    from process_detection_no_crossing [OF this, of cn5] a show False by auto
  qed
  then show "crossing (history_of (track_history s5') (track_id d5)) ly5" by (simp add: h)
  show "track_id d5 \<notin> counted_ids s5"
  proof
    assume "track_id d5 \<in> counted_ids s5"
    from process_detection_already_counted [OF this] a show False by blast
  qed
qed


theorem crossing_only_downward_witness:
  "length [(50::real, 95::real)] < 2 \<and>
   \<not> crossing [(50, 95)] 100 \<and>
   2 \<le> length [(50::real, 105::real), (50, 95)] \<and>
   snd (last [(50::real, 105::real), (50, 95)]) \<le> snd (last (butlast [(50::real, 105::real), (50, 95)])) \<and>
   \<not> crossing [(50, 105), (50, 95)] 100 \<and>
   crossing [(50, 95), (50, 105)] 100 \<and>
   crossing (update_track [(50, 95)] (50, 105)) 100 \<and>
   box_y (scenario_row 7 2 95)
     \<le> snd (last (history_of (track_history (initial_shared\<lparr>track_history := [(7, [(50, 105)])]\<rparr>))
          (track_id (scenario_row 7 2 95)))) \<and>
   (\<exists>s'. process_detection 100 (scenario_row 7 2 95) ''Car''
            (initial_shared\<lparr>track_history := [(7, [(50, 105)])]\<rparr>) = Inr s' \<and>
         cumulative_counts s' = cumulative_counts initial_shared \<and>
         counted_ids s' = counted_ids initial_shared) \<and>
   process_detection 100 (scenario_row 7 2 105) ''Car''
       (initial_shared\<lparr>track_history := [(7, [(50, 95)])]\<rparr>)
     = Inr (initial_shared\<lparr>track_history := [(7, [(50, 95), (50, 105)])],
              cumulative_counts := AList.update ''Car'' 1 zero_counts, counted_ids := {7}\<rparr>) \<and>
   cumulative_counts (initial_shared\<lparr>track_history := [(7, [(50, 95), (50, 105)])],
              cumulative_counts := AList.update ''Car'' 1 zero_counts, counted_ids := {7}\<rparr>)
     \<noteq> cumulative_counts (initial_shared\<lparr>track_history := [(7, [(50, 95)])]\<rparr>) \<and>
   track_id (scenario_row 7 2 105) \<notin> counted_ids (initial_shared\<lparr>track_history := [(7, [(50, 95)])]\<rparr>)"
proof -
  let ?up = "initial_shared\<lparr>track_history := [(7, [(50, 105)])]\<rparr>"
  let ?s5 = "initial_shared\<lparr>track_history := [(7, [(50, 95)])]\<rparr>"
  let ?s5' = "initial_shared\<lparr>track_history := [(7, [(50, 95), (50, 105)])],
              cumulative_counts := AList.update ''Car'' 1 zero_counts, counted_ids := {7}\<rparr>"
  have h1: "length [(50::real, 95::real)] < 2" by simp
  have h2: "2 \<le> length [(50::real, 105::real), (50, 95)] \<and>
    snd (last [(50::real, 105::real), (50, 95)]) \<le> snd (last (butlast [(50::real, 105::real), (50, 95)]))"
    by simp
  have h3: "history_of (track_history ?up) (track_id (scenario_row 7 2 95)) = [] \<or>
    box_y (scenario_row 7 2 95)
     \<le> snd (last (history_of (track_history ?up) (track_id (scenario_row 7 2 95))))"
    by (simp add: scenario_row_def history_of_def)
  have h4: "process_detection 100 (scenario_row 7 2 105) ''Car'' ?s5 = Inr ?s5' \<and>
    cumulative_counts ?s5' \<noteq> cumulative_counts ?s5"
    by (simp add: scenario_defs)
  have t: "2 \<le> length [(50::real, 95::real), (50, 105)]" "[(50::real, 95::real)] \<noteq> []" by simp_all
  from h1 h2 h3 h4 t
    crossing_only_downward [where tr = "[(50, 95), (50, 105)]" and ly = 100
      and ?tr1.0 = "[(50, 95)]" and ?ly1.0 = 100
      and ?tr2.0 = "[(50, 105), (50, 95)]" and ?ly2.0 = 100
      and ?tr3.0 = "[(50, 95)]" and p = "(50, 105)" and ?ly3.0 = 100
      and s = ?up and d = "scenario_row 7 2 95" and ?ly4.0 = 100 and cn = "''Car''"
      and ?ly5.0 = 100 and ?d5.0 = "scenario_row 7 2 105" and ?cn5.0 = "''Car''"
      and ?s5.0 = ?s5 and s5' = ?s5']
  show ?thesis by (simp add: scenario_row_def initial_shared_def history_of_def)
qed

subsection \<open>At most one count per track and epoch\<close>

text \<open>
  C5. Registering a crossing for an id that is already counted changes nothing; for an id
  that is not counted it adds exactly 1 to the count of the class and adds the id to the
  counted ids. Hence the first detection of a track on which the crossing test holds adds
  exactly 1 to its class (and to no other), and after a track has been counted, whatever
  blocks of the same epoch run in between (detections, cleanups, reset steps, but no
  upload), a further detection of that track changes neither the counts nor the counted
  ids. An id enters the counted ids only through a detection of that very track on which
  the crossing test holds.
\<close>

theorem counted_exactly_once:
  "(tid \<in> counted_ids s \<longrightarrow> register_crossing tid cn s = Inr s) \<and>
   (tid1 \<notin> counted_ids s1 \<and> map_of (cumulative_counts s1) cn1 = Some n \<longrightarrow>
      register_crossing tid1 cn1 s1 =
        Inr (s1\<lparr>cumulative_counts := AList.update cn1 (n + 1) (cumulative_counts s1),
                counted_ids := insert tid1 (counted_ids s1)\<rparr>) \<and>
      map_of (AList.update cn1 (n + 1) (cumulative_counts s1))
        = (map_of (cumulative_counts s1))(cn1 \<mapsto> n + 1)) \<and>
   (track_id d2 \<notin> counted_ids s2 \<and>
    crossing (update_track (history_of (track_history s2) (track_id d2)) (box_x d2, box_y d2)) ly2 \<and>
    map_of (cumulative_counts s2) cn2 = Some m \<longrightarrow>
      (\<exists>s'. process_detection ly2 d2 cn2 s2 = Inr s' \<and>
            map_of (cumulative_counts s') = (map_of (cumulative_counts s2))(cn2 \<mapsto> m + 1) \<and>
            counts_total (cumulative_counts s') = counts_total (cumulative_counts s2) + 1 \<and>
            counted_ids s' = insert (track_id d2) (counted_ids s2))) \<and>
   (track_id d3 \<in> counted_ids s3 \<and> list_all epoch_action acts \<and>
    run e acts (s3, w3) = Inr (s4, w4) \<and> step e (Detection d3) (s4, w4) = Inr (s5, w5) \<longrightarrow>
      cumulative_counts s5 = cumulative_counts s4 \<and> counted_ids s5 = counted_ids s4 \<and>
      track_id d3 \<in> counted_ids s5) \<and>
   (process_detection ly6 d6 cn6 s6 = Inr s6' \<and> tid6 \<in> counted_ids s6' \<and>
    tid6 \<notin> counted_ids s6 \<longrightarrow>
      tid6 = track_id d6 \<and> crossing (history_of (track_history s6') (track_id d6)) ly6)"
proof (intro conjI impI)
  assume "tid \<in> counted_ids s"
  then show "register_crossing tid cn s = Inr s" by (rule register_crossing_counted)
next
  assume "tid1 \<notin> counted_ids s1 \<and> map_of (cumulative_counts s1) cn1 = Some n"
  then show "register_crossing tid1 cn1 s1 =
        Inr (s1\<lparr>cumulative_counts := AList.update cn1 (n + 1) (cumulative_counts s1),
                counted_ids := insert tid1 (counted_ids s1)\<rparr>)"
    by (simp add: register_crossing_fresh)
  show "map_of (AList.update cn1 (n + 1) (cumulative_counts s1))
        = (map_of (cumulative_counts s1))(cn1 \<mapsto> n + 1)"
    by (rule update_conv')
next
  assume a: "track_id d2 \<notin> counted_ids s2 \<and>
    crossing (update_track (history_of (track_history s2) (track_id d2)) (box_x d2, box_y d2)) ly2 \<and>
    map_of (cumulative_counts s2) cn2 = Some m"
  let ?s1 = "s2\<lparr>track_history :=
             AList.update (track_id d2)
               (update_track (history_of (track_history s2) (track_id d2)) (box_x d2, box_y d2))
               (track_history s2)\<rparr>"
  from a have "process_detection ly2 d2 cn2 s2 = register_crossing (track_id d2) cn2 ?s1"
    by (simp add: process_detection_crossing)
  also from a have "\<dots> = Inr (?s1\<lparr>cumulative_counts := AList.update cn2 (m + 1) (cumulative_counts ?s1),
                counted_ids := insert (track_id d2) (counted_ids ?s1)\<rparr>)"
    by (intro register_crossing_fresh) simp_all
  finally show "\<exists>s'. process_detection ly2 d2 cn2 s2 = Inr s' \<and>
            map_of (cumulative_counts s') = (map_of (cumulative_counts s2))(cn2 \<mapsto> m + 1) \<and>
            counts_total (cumulative_counts s') = counts_total (cumulative_counts s2) + 1 \<and>
            counted_ids s' = insert (track_id d2) (counted_ids s2)"
    using a by (simp add: update_conv' counts_total_def sum_snd_update)
next
  assume a: "track_id d3 \<in> counted_ids s3 \<and> list_all epoch_action acts \<and>
    run e acts (s3, w3) = Inr (s4, w4) \<and> step e (Detection d3) (s4, w4) = Inr (s5, w5)"
  then have "counted_ids s3 \<subseteq> counted_ids s4"
    using epoch_run_total [of acts e "(s3, w3)" "(s4, w4)"] by simp
  with a have m: "track_id d3 \<in> counted_ids s4" by blast
  from a have st: "step e (Detection d3) (s4, w4) = Inr (s5, w5)" by simp
  have eq: "cumulative_counts s5 = cumulative_counts s4 \<and> counted_ids s5 = counted_ids s4"
  proof (cases "map_of TARGET_CLASSES (cls d3)")
    case None
    with st show ?thesis by simp
  next
    case (Some cname)
    with st have "process_detection (line_y w4) d3 cname s4 = Inr s5"
      by (auto split: sum.splits)
    from process_detection_already_counted [OF m this] show ?thesis .
  qed
  then show "cumulative_counts s5 = cumulative_counts s4" and "counted_ids s5 = counted_ids s4"
    by simp_all
  from eq m show "track_id d3 \<in> counted_ids s5" by simp
next
  assume "process_detection ly6 d6 cn6 s6 = Inr s6' \<and> tid6 \<in> counted_ids s6' \<and>
    tid6 \<notin> counted_ids s6"
  then have "process_detection ly6 d6 cn6 s6 = Inr s6'" "tid6 \<in> counted_ids s6'"
    "tid6 \<notin> counted_ids s6" by simp_all
  then have "tid6 = track_id d6 \<and> crossing (history_of (track_history s6') (track_id d6)) ly6"
    by (rule process_detection_newly_counted)
  then show "tid6 = track_id d6"
    and "crossing (history_of (track_history s6') (track_id d6)) ly6" by simp_all
qed

theorem counted_exactly_once_witness:
  "(7::int) \<in> counted_ids (initial_shared\<lparr>track_history := [(7, [(50, 95), (50, 105)])],
       cumulative_counts := AList.update ''Car'' 1 zero_counts, counted_ids := {7}\<rparr>) \<and>
   register_crossing 7 ''Car'' (initial_shared\<lparr>track_history := [(7, [(50, 95), (50, 105)])],
       cumulative_counts := AList.update ''Car'' 1 zero_counts, counted_ids := {7}\<rparr>) = Inr (initial_shared\<lparr>track_history := [(7, [(50, 95), (50, 105)])],
       cumulative_counts := AList.update ''Car'' 1 zero_counts, counted_ids := {7}\<rparr>) \<and>
   (7::int) \<notin> counted_ids initial_shared \<and>
   map_of (cumulative_counts initial_shared) ''Car'' = Some 0 \<and>
   register_crossing 7 ''Car'' initial_shared =
     Inr (initial_shared\<lparr>cumulative_counts := AList.update ''Car'' (0 + 1) (cumulative_counts initial_shared),
            counted_ids := insert 7 (counted_ids initial_shared)\<rparr>) \<and>
   track_id (scenario_row 7 2 105) \<notin> counted_ids (initial_shared\<lparr>track_history := [(7, [(50, 95)])]\<rparr>) \<and>
   crossing (update_track (history_of (track_history (initial_shared\<lparr>track_history := [(7, [(50, 95)])]\<rparr>)) (track_id (scenario_row 7 2 105)))
      (box_x (scenario_row 7 2 105), box_y (scenario_row 7 2 105))) 100 \<and>
   map_of (cumulative_counts (initial_shared\<lparr>track_history := [(7, [(50, 95)])]\<rparr>)) ''Car'' = Some 0 \<and>
   (\<exists>s'. process_detection 100 (scenario_row 7 2 105) ''Car'' (initial_shared\<lparr>track_history := [(7, [(50, 95)])]\<rparr>) = Inr s' \<and>
         map_of (cumulative_counts s') = (map_of (cumulative_counts (initial_shared\<lparr>track_history := [(7, [(50, 95)])]\<rparr>)))(''Car'' \<mapsto> 0 + 1) \<and>
         counts_total (cumulative_counts s') = counts_total (cumulative_counts (initial_shared\<lparr>track_history := [(7, [(50, 95)])]\<rparr>)) + 1 \<and>
         counted_ids s' = insert (track_id (scenario_row 7 2 105)) (counted_ids (initial_shared\<lparr>track_history := [(7, [(50, 95)])]\<rparr>))) \<and>
   track_id (scenario_row 7 2 110) \<in> counted_ids (initial_shared\<lparr>track_history := [(7, [(50, 95), (50, 105)])],
       cumulative_counts := AList.update ''Car'' 1 zero_counts, counted_ids := {7}\<rparr>) \<and>
   list_all epoch_action [Detection (scenario_row 7 2 108), Cleanup {7}, ConsumeReset] \<and>
   run scenario_env [Detection (scenario_row 7 2 108), Cleanup {7}, ConsumeReset] ((initial_shared\<lparr>track_history := [(7, [(50, 95), (50, 105)])],
       cumulative_counts := AList.update ''Car'' 1 zero_counts, counted_ids := {7}\<rparr>), scenario_worker)
     = Inr ((initial_shared\<lparr>track_history := [(7, [(50, 95), (50, 105), (50, 108)])],
       cumulative_counts := AList.update ''Car'' 1 zero_counts, counted_ids := {7}\<rparr>), scenario_worker) \<and>
   step scenario_env (Detection (scenario_row 7 2 110)) ((initial_shared\<lparr>track_history := [(7, [(50, 95), (50, 105), (50, 108)])],
       cumulative_counts := AList.update ''Car'' 1 zero_counts, counted_ids := {7}\<rparr>), scenario_worker)
     = Inr ((initial_shared\<lparr>track_history := [(7, [(50, 95), (50, 105), (50, 108), (50, 110)])],
       cumulative_counts := AList.update ''Car'' 1 zero_counts, counted_ids := {7}\<rparr>), scenario_worker) \<and>
   cumulative_counts (initial_shared\<lparr>track_history := [(7, [(50, 95), (50, 105), (50, 108), (50, 110)])],
       cumulative_counts := AList.update ''Car'' 1 zero_counts, counted_ids := {7}\<rparr>) = cumulative_counts (initial_shared\<lparr>track_history := [(7, [(50, 95), (50, 105), (50, 108)])],
       cumulative_counts := AList.update ''Car'' 1 zero_counts, counted_ids := {7}\<rparr>) \<and>
   track_id (scenario_row 7 2 110) \<in> counted_ids (initial_shared\<lparr>track_history := [(7, [(50, 95), (50, 105), (50, 108), (50, 110)])],
       cumulative_counts := AList.update ''Car'' 1 zero_counts, counted_ids := {7}\<rparr>) \<and>
   process_detection 100 (scenario_row 7 2 105) ''Car'' (initial_shared\<lparr>track_history := [(7, [(50, 95)])]\<rparr>)
     = Inr (initial_shared\<lparr>track_history := [(7, [(50, 95), (50, 105)])],
       cumulative_counts := AList.update ''Car'' 1 zero_counts, counted_ids := {7}\<rparr>) \<and>
   (7::int) \<in> counted_ids (initial_shared\<lparr>track_history := [(7, [(50, 95), (50, 105)])],
       cumulative_counts := AList.update ''Car'' 1 zero_counts, counted_ids := {7}\<rparr>) \<and>
   (7::int) \<notin> counted_ids (initial_shared\<lparr>track_history := [(7, [(50, 95)])]\<rparr>) \<and>
   (7::int) = track_id (scenario_row 7 2 105) \<and>
   crossing (history_of (track_history (initial_shared\<lparr>track_history := [(7, [(50, 95), (50, 105)])],
       cumulative_counts := AList.update ''Car'' 1 zero_counts, counted_ids := {7}\<rparr>)) (track_id (scenario_row 7 2 105))) 100"
proof -
  have h1: "(7::int) \<in> counted_ids (initial_shared\<lparr>track_history := [(7, [(50, 95), (50, 105)])],
       cumulative_counts := AList.update ''Car'' 1 zero_counts, counted_ids := {7}\<rparr>)" by simp
  have h2: "(7::int) \<notin> counted_ids initial_shared \<and>
   map_of (cumulative_counts initial_shared) ''Car'' = Some 0"
    by (simp add: initial_shared_def zero_counts_def TARGET_CLASSES_def)
  have h3: "track_id (scenario_row 7 2 105) \<notin> counted_ids (initial_shared\<lparr>track_history := [(7, [(50, 95)])]\<rparr>) \<and>
   crossing (update_track (history_of (track_history (initial_shared\<lparr>track_history := [(7, [(50, 95)])]\<rparr>)) (track_id (scenario_row 7 2 105)))
      (box_x (scenario_row 7 2 105), box_y (scenario_row 7 2 105))) 100 \<and>
   map_of (cumulative_counts (initial_shared\<lparr>track_history := [(7, [(50, 95)])]\<rparr>)) ''Car'' = Some 0"
    by (simp add: scenario_defs)
  have h4: "track_id (scenario_row 7 2 110) \<in> counted_ids (initial_shared\<lparr>track_history := [(7, [(50, 95), (50, 105)])],
       cumulative_counts := AList.update ''Car'' 1 zero_counts, counted_ids := {7}\<rparr>) \<and>
   list_all epoch_action [Detection (scenario_row 7 2 108), Cleanup {7}, ConsumeReset] \<and>
   run scenario_env [Detection (scenario_row 7 2 108), Cleanup {7}, ConsumeReset] ((initial_shared\<lparr>track_history := [(7, [(50, 95), (50, 105)])],
       cumulative_counts := AList.update ''Car'' 1 zero_counts, counted_ids := {7}\<rparr>), scenario_worker)
     = Inr ((initial_shared\<lparr>track_history := [(7, [(50, 95), (50, 105), (50, 108)])],
       cumulative_counts := AList.update ''Car'' 1 zero_counts, counted_ids := {7}\<rparr>), scenario_worker) \<and>
   step scenario_env (Detection (scenario_row 7 2 110)) ((initial_shared\<lparr>track_history := [(7, [(50, 95), (50, 105), (50, 108)])],
       cumulative_counts := AList.update ''Car'' 1 zero_counts, counted_ids := {7}\<rparr>), scenario_worker)
     = Inr ((initial_shared\<lparr>track_history := [(7, [(50, 95), (50, 105), (50, 108), (50, 110)])],
       cumulative_counts := AList.update ''Car'' 1 zero_counts, counted_ids := {7}\<rparr>), scenario_worker)"
    by (simp add: scenario_defs cleanup_tracks_def consume_reset_def)
  have h5: "process_detection 100 (scenario_row 7 2 105) ''Car'' (initial_shared\<lparr>track_history := [(7, [(50, 95)])]\<rparr>)
     = Inr (initial_shared\<lparr>track_history := [(7, [(50, 95), (50, 105)])],
       cumulative_counts := AList.update ''Car'' 1 zero_counts, counted_ids := {7}\<rparr>) \<and>
   (7::int) \<in> counted_ids (initial_shared\<lparr>track_history := [(7, [(50, 95), (50, 105)])],
       cumulative_counts := AList.update ''Car'' 1 zero_counts, counted_ids := {7}\<rparr>) \<and>
   (7::int) \<notin> counted_ids (initial_shared\<lparr>track_history := [(7, [(50, 95)])]\<rparr>)"
    by (simp add: scenario_defs)
  note T = counted_exactly_once [where tid = 7 and s = "(initial_shared\<lparr>track_history := [(7, [(50, 95), (50, 105)])],
       cumulative_counts := AList.update ''Car'' 1 zero_counts, counted_ids := {7}\<rparr>)" and cn = "''Car''"
      and ?tid1.0 = 7 and ?s1.0 = initial_shared and ?cn1.0 = "''Car''" and n = 0
      and ?d2.0 = "scenario_row 7 2 105" and ?s2.0 = "(initial_shared\<lparr>track_history := [(7, [(50, 95)])]\<rparr>)" and ?ly2.0 = 100
      and ?cn2.0 = "''Car''" and m = 0
      and ?d3.0 = "scenario_row 7 2 110" and ?s3.0 = "(initial_shared\<lparr>track_history := [(7, [(50, 95), (50, 105)])],
       cumulative_counts := AList.update ''Car'' 1 zero_counts, counted_ids := {7}\<rparr>)"
      and acts = "[Detection (scenario_row 7 2 108), Cleanup {7}, ConsumeReset]" and e = scenario_env and ?w3.0 = scenario_worker
      and ?s4.0 = "(initial_shared\<lparr>track_history := [(7, [(50, 95), (50, 105), (50, 108)])],
       cumulative_counts := AList.update ''Car'' 1 zero_counts, counted_ids := {7}\<rparr>)" and ?w4.0 = scenario_worker
      and ?s5.0 = "(initial_shared\<lparr>track_history := [(7, [(50, 95), (50, 105), (50, 108), (50, 110)])],
       cumulative_counts := AList.update ''Car'' 1 zero_counts, counted_ids := {7}\<rparr>)" and ?w5.0 = scenario_worker
      and ?ly6.0 = 100 and ?d6.0 = "scenario_row 7 2 105" and ?cn6.0 = "''Car''"
      and ?s6.0 = "(initial_shared\<lparr>track_history := [(7, [(50, 95)])]\<rparr>)"
      and s6' = "(initial_shared\<lparr>track_history := [(7, [(50, 95), (50, 105)])],
       cumulative_counts := AList.update ''Car'' 1 zero_counts, counted_ids := {7}\<rparr>)" and ?tid6.0 = 7]
  from T h1 have k1: "register_crossing 7 ''Car'' (initial_shared\<lparr>track_history := [(7, [(50, 95), (50, 105)])],
       cumulative_counts := AList.update ''Car'' 1 zero_counts, counted_ids := {7}\<rparr>) = Inr (initial_shared\<lparr>track_history := [(7, [(50, 95), (50, 105)])],
       cumulative_counts := AList.update ''Car'' 1 zero_counts, counted_ids := {7}\<rparr>)" by blast
  from T h2 have k2: "register_crossing 7 ''Car'' initial_shared =
     Inr (initial_shared\<lparr>cumulative_counts := AList.update ''Car'' (0 + 1) (cumulative_counts initial_shared),
            counted_ids := insert 7 (counted_ids initial_shared)\<rparr>)" by blast
  from T h3 have k3: "(\<exists>s'. process_detection 100 (scenario_row 7 2 105) ''Car'' (initial_shared\<lparr>track_history := [(7, [(50, 95)])]\<rparr>) = Inr s' \<and>
         map_of (cumulative_counts s') = (map_of (cumulative_counts (initial_shared\<lparr>track_history := [(7, [(50, 95)])]\<rparr>)))(''Car'' \<mapsto> 0 + 1) \<and>
         counts_total (cumulative_counts s') = counts_total (cumulative_counts (initial_shared\<lparr>track_history := [(7, [(50, 95)])]\<rparr>)) + 1 \<and>
         counted_ids s' = insert (track_id (scenario_row 7 2 105)) (counted_ids (initial_shared\<lparr>track_history := [(7, [(50, 95)])]\<rparr>)))" by blast
  from T h4 have k4: "cumulative_counts (initial_shared\<lparr>track_history := [(7, [(50, 95), (50, 105), (50, 108), (50, 110)])],
       cumulative_counts := AList.update ''Car'' 1 zero_counts, counted_ids := {7}\<rparr>) = cumulative_counts (initial_shared\<lparr>track_history := [(7, [(50, 95), (50, 105), (50, 108)])],
       cumulative_counts := AList.update ''Car'' 1 zero_counts, counted_ids := {7}\<rparr>) \<and>
   track_id (scenario_row 7 2 110) \<in> counted_ids (initial_shared\<lparr>track_history := [(7, [(50, 95), (50, 105), (50, 108), (50, 110)])],
       cumulative_counts := AList.update ''Car'' 1 zero_counts, counted_ids := {7}\<rparr>)" by blast
  from T h5 have k5: "(7::int) = track_id (scenario_row 7 2 105) \<and>
   crossing (history_of (track_history (initial_shared\<lparr>track_history := [(7, [(50, 95), (50, 105)])],
       cumulative_counts := AList.update ''Car'' 1 zero_counts, counted_ids := {7}\<rparr>)) (track_id (scenario_row 7 2 105))) 100" by blast
  from h1 k1 h2 k2 h3 k3 h4 k4 h5 k5 show ?thesis by blast
qed

subsection \<open>The total within an epoch\<close>

text \<open>
  C6. The sum of the per-class counts never decreases along any run of blocks of one
  epoch (detections, cleanups, reset steps), nor over a whole cycle of the worker. An
  upload that passes the checks and whose file is saved starts the next epoch: its lock
  block leaves the sum at exactly 0, and the reset step that follows keeps it at 0. A
  request whose file cannot be saved raises before the lock block and leaves the state,
  and so the sum, as it was; and whatever the request, the state is either untouched or
  has the sum 0.
\<close>

theorem total_never_decreases_in_epoch:
  "(list_all epoch_action acts \<and> run e acts (s, w) = Inr (s', w') \<longrightarrow>
      counts_total (cumulative_counts s) \<le> counts_total (cumulative_counts s')) \<and>
   (cycle fh inp (s1, w1) = Inr ((s1', w1'), out) \<longrightarrow>
      counts_total (cumulative_counts s1) \<le> counts_total (cumulative_counts s1')) \<and>
   (map_of (files req) ''video'' = Some fname \<and> fname \<noteq> [] \<and>
    sv (jp UPLOAD_FOLDER (sn fname)) \<longrightarrow>
      counts_total (cumulative_counts (snd (upload_video sn jp sv req s2))) = 0 \<and>
      counts_total (cumulative_counts
        (fst (consume_reset fh2 (snd (upload_video sn jp sv req s2), w2)))) = 0) \<and>
   (map_of (files req3) ''video'' = Some fname3 \<and> fname3 \<noteq> [] \<and>
    \<not> sv3 (jp3 UPLOAD_FOLDER (sn3 fname3)) \<longrightarrow>
      upload_video sn3 jp3 sv3 req3 s3 = (Inl SaveError, s3)) \<and>
   (snd (upload_video sn4 jp4 sv4 req4 s4) = s4 \<or>
    counts_total (cumulative_counts (snd (upload_video sn4 jp4 sv4 req4 s4))) = 0)"
proof (intro conjI impI)
  assume "list_all epoch_action acts \<and> run e acts (s, w) = Inr (s', w')"
  then show "counts_total (cumulative_counts s) \<le> counts_total (cumulative_counts s')"
    using epoch_run_total [of acts e "(s, w)" "(s', w')"] by simp
next
  assume "cycle fh inp (s1, w1) = Inr ((s1', w1'), out)"
  then show "counts_total (cumulative_counts s1) \<le> counts_total (cumulative_counts s1')"
    by (rule cycle_total)
next
  assume a: "map_of (files req) ''video'' = Some fname \<and> fname \<noteq> [] \<and>
    sv (jp UPLOAD_FOLDER (sn fname))"
  then show z: "counts_total (cumulative_counts (snd (upload_video sn jp sv req s2))) = 0"
    by (simp add: upload_video_accepted zero_counts_total)
  obtain s5 w5 where c: "consume_reset fh2 (snd (upload_video sn jp sv req s2), w2) = (s5, w5)"
    by (cases "consume_reset fh2 (snd (upload_video sn jp sv req s2), w2)")
  from consume_reset_fields [OF c] z c
  show "counts_total (cumulative_counts
        (fst (consume_reset fh2 (snd (upload_video sn jp sv req s2), w2)))) = 0"
    by simp
next
  assume "map_of (files req3) ''video'' = Some fname3 \<and> fname3 \<noteq> [] \<and>
    \<not> sv3 (jp3 UPLOAD_FOLDER (sn3 fname3))"
  then show "upload_video sn3 jp3 sv3 req3 s3 = (Inl SaveError, s3)"
    by (simp add: upload_video_save_fails)
next
  from upload_video_cases [of sn4 jp4 sv4 req4 s4]
  show "snd (upload_video sn4 jp4 sv4 req4 s4) = s4 \<or>
    counts_total (cumulative_counts (snd (upload_video sn4 jp4 sv4 req4 s4))) = 0"
    by (auto simp: zero_counts_total)
qed

theorem total_never_decreases_in_epoch_witness:
  "list_all epoch_action [Detection (scenario_row 7 2 95), Detection (scenario_row 7 2 105)] \<and>
   run scenario_env [Detection (scenario_row 7 2 95), Detection (scenario_row 7 2 105)] (initial_shared, scenario_worker)
     = Inr ((initial_shared\<lparr>track_history := [(7, [(50, 95), (50, 105)])],
       cumulative_counts := AList.update ''Car'' 1 zero_counts, counted_ids := {7}\<rparr>), scenario_worker) \<and>
   counts_total (cumulative_counts initial_shared)
     \<le> counts_total (cumulative_counts (initial_shared\<lparr>track_history := [(7, [(50, 95), (50, 105)])],
       cumulative_counts := AList.update ''Car'' 1 zero_counts, counted_ids := {7}\<rparr>)) \<and>
   cycle (frame_height scenario_env) (Frame [scenario_row 7 2 105]) ((initial_shared\<lparr>track_history := [(7, [(50, 95)])]\<rparr>), scenario_worker)
     = Inr (((initial_shared\<lparr>track_history := [(7, [(50, 95), (50, 105)])],
       cumulative_counts := AList.update ''Car'' 1 zero_counts, counted_ids := {7}\<rparr>), scenario_worker), (Some \<lparr>counts = AList.update ''Car'' 1 zero_counts, status = traffic_status 1\<rparr>)) \<and>
   counts_total (cumulative_counts (initial_shared\<lparr>track_history := [(7, [(50, 95)])]\<rparr>))
     \<le> counts_total (cumulative_counts (initial_shared\<lparr>track_history := [(7, [(50, 95), (50, 105)])],
       cumulative_counts := AList.update ''Car'' 1 zero_counts, counted_ids := {7}\<rparr>)) \<and>
   map_of (files \<lparr>files = [(''video'', ''b.mp4'')]\<rparr>) ''video'' = Some ''b.mp4'' \<and> ''b.mp4'' \<noteq> [] \<and>
   save_ok scenario_env (path_join scenario_env UPLOAD_FOLDER (secure_filename scenario_env ''b.mp4'')) \<and>
   counts_total (cumulative_counts (snd (upload_video (secure_filename scenario_env) (path_join scenario_env) (save_ok scenario_env)
        \<lparr>files = [(''video'', ''b.mp4'')]\<rparr> (initial_shared\<lparr>track_history := [(7, [(50, 95), (50, 105)])],
       cumulative_counts := AList.update ''Car'' 1 zero_counts, counted_ids := {7}\<rparr>)))) = 0 \<and>
   counts_total (cumulative_counts
     (fst (consume_reset (frame_height scenario_env) ((snd (upload_video (secure_filename scenario_env) (path_join scenario_env) (save_ok scenario_env)
        \<lparr>files = [(''video'', ''b.mp4'')]\<rparr> (initial_shared\<lparr>track_history := [(7, [(50, 95), (50, 105)])],
       cumulative_counts := AList.update ''Car'' 1 zero_counts, counted_ids := {7}\<rparr>))), scenario_worker)))) = 0 \<and>
   map_of (files \<lparr>files = [(''video'', ''..'')]\<rparr>) ''video'' = Some ''..'' \<and> ''..'' \<noteq> [] \<and>
   \<not> save_ok scenario_env (path_join scenario_env UPLOAD_FOLDER (secure_filename scenario_env ''..'')) \<and>
   upload_video (secure_filename scenario_env) (path_join scenario_env) (save_ok scenario_env)
       \<lparr>files = [(''video'', ''..'')]\<rparr> (initial_shared\<lparr>track_history := [(7, [(50, 95), (50, 105)])],
       cumulative_counts := AList.update ''Car'' 1 zero_counts, counted_ids := {7}\<rparr>) = (Inl SaveError, (initial_shared\<lparr>track_history := [(7, [(50, 95), (50, 105)])],
       cumulative_counts := AList.update ''Car'' 1 zero_counts, counted_ids := {7}\<rparr>))"
proof -
  have h1: "list_all epoch_action [Detection (scenario_row 7 2 95), Detection (scenario_row 7 2 105)] \<and>
   run scenario_env [Detection (scenario_row 7 2 95), Detection (scenario_row 7 2 105)] (initial_shared, scenario_worker)
     = Inr ((initial_shared\<lparr>track_history := [(7, [(50, 95), (50, 105)])],
       cumulative_counts := AList.update ''Car'' 1 zero_counts, counted_ids := {7}\<rparr>), scenario_worker)"
    by (simp add: scenario_defs)
  have h2: "cycle (frame_height scenario_env) (Frame [scenario_row 7 2 105]) ((initial_shared\<lparr>track_history := [(7, [(50, 95)])]\<rparr>), scenario_worker)
     = Inr (((initial_shared\<lparr>track_history := [(7, [(50, 95), (50, 105)])],
       cumulative_counts := AList.update ''Car'' 1 zero_counts, counted_ids := {7}\<rparr>), scenario_worker), (Some \<lparr>counts = AList.update ''Car'' 1 zero_counts, status = traffic_status 1\<rparr>))"
    by (simp add: scenario_defs cycle_def consume_reset_def process_frame_def
        cleanup_tracks_def total_cumulative_def)
  have h3: "map_of (files \<lparr>files = [(''video'', ''b.mp4'')]\<rparr>) ''video'' = Some ''b.mp4'' \<and> ''b.mp4'' \<noteq> [] \<and>
   save_ok scenario_env (path_join scenario_env UPLOAD_FOLDER (secure_filename scenario_env ''b.mp4''))"
    by (simp add: scenario_env_def UPLOAD_FOLDER_def)
  have h4: "map_of (files \<lparr>files = [(''video'', ''..'')]\<rparr>) ''video'' = Some ''..'' \<and> ''..'' \<noteq> [] \<and>
   \<not> save_ok scenario_env (path_join scenario_env UPLOAD_FOLDER (secure_filename scenario_env ''..''))"
    by (simp add: scenario_env_def UPLOAD_FOLDER_def)
  note T = total_never_decreases_in_epoch [where acts = "[Detection (scenario_row 7 2 95), Detection (scenario_row 7 2 105)]" and e = scenario_env
      and s = initial_shared and w = scenario_worker and s' = "(initial_shared\<lparr>track_history := [(7, [(50, 95), (50, 105)])],
       cumulative_counts := AList.update ''Car'' 1 zero_counts, counted_ids := {7}\<rparr>)" and w' = scenario_worker
      and fh = "frame_height scenario_env" and inp = "Frame [scenario_row 7 2 105]"
      and ?s1.0 = "(initial_shared\<lparr>track_history := [(7, [(50, 95)])]\<rparr>)" and ?w1.0 = scenario_worker and s1' = "(initial_shared\<lparr>track_history := [(7, [(50, 95), (50, 105)])],
       cumulative_counts := AList.update ''Car'' 1 zero_counts, counted_ids := {7}\<rparr>)" and w1' = scenario_worker
      and out = "(Some \<lparr>counts = AList.update ''Car'' 1 zero_counts, status = traffic_status 1\<rparr>)" and req = "\<lparr>files = [(''video'', ''b.mp4'')]\<rparr>" and fname = "''b.mp4''"
      and sn = "secure_filename scenario_env" and jp = "path_join scenario_env"
      and sv = "save_ok scenario_env" and ?s2.0 = "(initial_shared\<lparr>track_history := [(7, [(50, 95), (50, 105)])],
       cumulative_counts := AList.update ''Car'' 1 zero_counts, counted_ids := {7}\<rparr>)"
      and ?fh2.0 = "frame_height scenario_env" and ?w2.0 = scenario_worker
      and ?req3.0 = "\<lparr>files = [(''video'', ''..'')]\<rparr>" and ?fname3.0 = "''..''"
      and ?sn3.0 = "secure_filename scenario_env" and ?jp3.0 = "path_join scenario_env"
      and ?sv3.0 = "save_ok scenario_env" and ?s3.0 = "(initial_shared\<lparr>track_history := [(7, [(50, 95), (50, 105)])],
       cumulative_counts := AList.update ''Car'' 1 zero_counts, counted_ids := {7}\<rparr>)"]
  from T h1 have k1: "counts_total (cumulative_counts initial_shared)
     \<le> counts_total (cumulative_counts (initial_shared\<lparr>track_history := [(7, [(50, 95), (50, 105)])],
       cumulative_counts := AList.update ''Car'' 1 zero_counts, counted_ids := {7}\<rparr>))" by blast
  from T h2 have k2: "counts_total (cumulative_counts (initial_shared\<lparr>track_history := [(7, [(50, 95)])]\<rparr>))
     \<le> counts_total (cumulative_counts (initial_shared\<lparr>track_history := [(7, [(50, 95), (50, 105)])],
       cumulative_counts := AList.update ''Car'' 1 zero_counts, counted_ids := {7}\<rparr>))" by blast
  from T h3 have k3: "counts_total (cumulative_counts (snd (upload_video (secure_filename scenario_env) (path_join scenario_env) (save_ok scenario_env)
        \<lparr>files = [(''video'', ''b.mp4'')]\<rparr> (initial_shared\<lparr>track_history := [(7, [(50, 95), (50, 105)])],
       cumulative_counts := AList.update ''Car'' 1 zero_counts, counted_ids := {7}\<rparr>)))) = 0 \<and>
   counts_total (cumulative_counts
     (fst (consume_reset (frame_height scenario_env) ((snd (upload_video (secure_filename scenario_env) (path_join scenario_env) (save_ok scenario_env)
        \<lparr>files = [(''video'', ''b.mp4'')]\<rparr> (initial_shared\<lparr>track_history := [(7, [(50, 95), (50, 105)])],
       cumulative_counts := AList.update ''Car'' 1 zero_counts, counted_ids := {7}\<rparr>))), scenario_worker)))) = 0" by blast
  from T h4 have k4: "upload_video (secure_filename scenario_env) (path_join scenario_env) (save_ok scenario_env)
       \<lparr>files = [(''video'', ''..'')]\<rparr> (initial_shared\<lparr>track_history := [(7, [(50, 95), (50, 105)])],
       cumulative_counts := AList.update ''Car'' 1 zero_counts, counted_ids := {7}\<rparr>) = (Inl SaveError, (initial_shared\<lparr>track_history := [(7, [(50, 95), (50, 105)])],
       cumulative_counts := AList.update ''Car'' 1 zero_counts, counted_ids := {7}\<rparr>))" by blast
  from h1 k1 h2 k2 h3 k3 h4 k4 show ?thesis by blast
qed

lemma total_cumulative_Inr:
  "total_cumulative cs = Inr tot \<longleftrightarrow>
   (\<exists>car bus truck person bicycle.
      map_of cs ''Car'' = Some car \<and> map_of cs ''Bus'' = Some bus \<and>
      map_of cs ''Truck'' = Some truck \<and> map_of cs ''Person'' = Some person \<and>
      map_of cs ''Bicycle'' = Some bicycle \<and> tot = car + bus + truck + person + bicycle)"
  by (auto simp: total_cumulative_def count_of_def split: option.splits)

lemma has_class_keys_update:
  "has_class_keys cs \<Longrightarrow> has_class_keys (AList.update k v cs)"
  by (simp add: has_class_keys_def update_conv' TARGET_CLASSES_def)

lemma has_class_keys_lookup:
  "has_class_keys cs \<Longrightarrow> map_of TARGET_CLASSES c = Some cn \<Longrightarrow> \<exists>n. map_of cs cn = Some n"
  by (auto simp: has_class_keys_def TARGET_CLASSES_def split: if_splits)

lemma process_detection_returns:
  assumes "has_class_keys (cumulative_counts s)" and "map_of TARGET_CLASSES c = Some cn"
  shows "\<exists>s'. process_detection ly d cn s = Inr s' \<and> has_class_keys (cumulative_counts s')"
proof -
  from has_class_keys_lookup [OF assms] obtain n where "map_of (cumulative_counts s) cn = Some n" ..
  with assms(1) show ?thesis
    by (auto simp: process_detection_def Let_def register_crossing_def count_of_def
        has_class_keys_update)
qed

lemma process_detections_returns:
  "has_class_keys (cumulative_counts s) \<Longrightarrow>
   \<exists>A' s'. process_detections ly ds (A, s) = Inr (A', s') \<and> has_class_keys (cumulative_counts s')"
proof (induction ds arbitrary: A s)
  case Nil
  then show ?case by simp
next
  case (Cons d ds)
  show ?case
  proof (cases "map_of TARGET_CLASSES (cls d)")
    case None
    with Cons.IH [OF Cons.prems] show ?thesis by simp
  next
    case (Some cn)
    from process_detection_returns [OF Cons.prems Some]
    obtain s1 where p: "process_detection ly d cn s = Inr s1"
      and k: "has_class_keys (cumulative_counts s1)" by blast
    from Cons.IH [OF k, of "insert (track_id d) A"] Some p show ?thesis by simp
  qed
qed

lemma has_class_keys_total:
  "has_class_keys cs \<Longrightarrow> \<exists>tot. total_cumulative cs = Inr tot"
  by (auto simp: total_cumulative_Inr has_class_keys_def TARGET_CLASSES_def)

lemma process_frame_returns:
  assumes "has_class_keys (cumulative_counts s)"
  shows "\<exists>s' out. process_frame ly dets s = Inr (s', out) \<and> has_class_keys (cumulative_counts s')"
proof -
  from process_detections_returns [OF assms]
  obtain A' s1 where p: "process_detections ly dets ({}, s) = Inr (A', s1)"
    and k: "has_class_keys (cumulative_counts s1)" by blast
  from has_class_keys_total [OF k] obtain tot where "total_cumulative (cumulative_counts s1) = Inr tot" ..
  with p k show ?thesis
    by (simp add: process_frame_def Let_def cleanup_tracks_fields)
qed

lemma density_traffic_status: "density (traffic_status tot) = tot"
  by (simp add: traffic_status_def)

lemma process_frame_out:
  "process_frame ly dets s = Inr (s', out) \<Longrightarrow>
   counts out = cumulative_counts s' \<and>
   total_cumulative (cumulative_counts s') = Inr (density (status out)) \<and>
   status out = traffic_status (density (status out))"
  by (auto simp: process_frame_def Let_def density_traffic_status cleanup_tracks_fields
      split: sum.splits prod.splits)

subsection \<open>The emitted record\<close>

text \<open>
  C9. In the record emitted for a frame, the counts are the cumulative counts after the
  frame, and \<open>status.density\<close> is the sum of the emitted counts of Car, Bus, Truck,
  Person and Bicycle, which is the total the status was computed from. The record is a
  function of the cumulative counts alone: two frames that end with the same counts emit
  the same record, whatever rows were visible in them, so the per-frame number of rows of
  classes 2, 3, 5, 7 (line 151) reaches no emitted field. A frame processed on counts that
  have every class name as a key does emit a record.
\<close>

theorem density_is_cumulative_total:
  "(process_frame ly dets s = Inr (s', out) \<longrightarrow>
      counts out = cumulative_counts s' \<and>
      (\<exists>car bus truck person bicycle.
         map_of (counts out) ''Car'' = Some car \<and> map_of (counts out) ''Bus'' = Some bus \<and>
         map_of (counts out) ''Truck'' = Some truck \<and>
         map_of (counts out) ''Person'' = Some person \<and>
         map_of (counts out) ''Bicycle'' = Some bicycle \<and>
         density (status out) = car + bus + truck + person + bicycle \<and>
         status out = traffic_status (car + bus + truck + person + bicycle))) \<and>
   (process_frame ly1 dets1 s1 = Inr (s1', out1) \<and> process_frame ly2 dets2 s2 = Inr (s2', out2) \<and>
    cumulative_counts s1' = cumulative_counts s2' \<longrightarrow> out1 = out2) \<and>
   (has_class_keys (cumulative_counts s3) \<longrightarrow>
      (\<exists>s3' out3. process_frame ly3 dets3 s3 = Inr (s3', out3)))"
proof (intro conjI impI)
  assume a: "process_frame ly dets s = Inr (s', out)"
  note o = process_frame_out [OF a]
  from o show "counts out = cumulative_counts s'" by simp
  from o have "total_cumulative (counts out) = Inr (density (status out))" by simp
  then obtain car bus truck person bicycle where
    m: "map_of (counts out) ''Car'' = Some car" "map_of (counts out) ''Bus'' = Some bus"
       "map_of (counts out) ''Truck'' = Some truck" "map_of (counts out) ''Person'' = Some person"
       "map_of (counts out) ''Bicycle'' = Some bicycle"
    and d: "density (status out) = car + bus + truck + person + bicycle"
    unfolding total_cumulative_Inr by blast
  from o d have "status out = traffic_status (car + bus + truck + person + bicycle)" by simp
  with m d show "\<exists>car bus truck person bicycle.
         map_of (counts out) ''Car'' = Some car \<and> map_of (counts out) ''Bus'' = Some bus \<and>
         map_of (counts out) ''Truck'' = Some truck \<and>
         map_of (counts out) ''Person'' = Some person \<and>
         map_of (counts out) ''Bicycle'' = Some bicycle \<and>
         density (status out) = car + bus + truck + person + bicycle \<and>
         status out = traffic_status (car + bus + truck + person + bicycle)"
    by blast
next
  assume a: "process_frame ly1 dets1 s1 = Inr (s1', out1) \<and>
    process_frame ly2 dets2 s2 = Inr (s2', out2) \<and> cumulative_counts s1' = cumulative_counts s2'"
  then have p1: "process_frame ly1 dets1 s1 = Inr (s1', out1)"
    and p2: "process_frame ly2 dets2 s2 = Inr (s2', out2)" by simp_all
  have o1: "counts out1 = cumulative_counts s1' \<and>
      total_cumulative (cumulative_counts s1') = Inr (density (status out1)) \<and>
      status out1 = traffic_status (density (status out1))"
    and o2: "counts out2 = cumulative_counts s2' \<and>
      total_cumulative (cumulative_counts s2') = Inr (density (status out2)) \<and>
      status out2 = traffic_status (density (status out2))"
    by (rule process_frame_out [OF p1], rule process_frame_out [OF p2])
  with a have "counts out1 = counts out2" "density (status out1) = density (status out2)"
    by simp_all
  with o1 o2 have "counts out1 = counts out2" "status out1 = status out2" by simp_all
  then show "out1 = out2" by simp
next
  assume "has_class_keys (cumulative_counts s3)"
  from process_frame_returns [OF this]
  show "\<exists>s3' out3. process_frame ly3 dets3 s3 = Inr (s3', out3)" by blast
qed

theorem density_is_cumulative_total_witness:
  "process_frame 100 [scenario_row 7 2 105, scenario_row 9 2 40] (initial_shared\<lparr>track_history := [(7, [(50, 95)])]\<rparr>)
     = Inr ((initial_shared\<lparr>track_history := [(7, [(50, 95), (50, 105)]), (9, [(50, 40)])],
       cumulative_counts := AList.update ''Car'' 1 zero_counts, counted_ids := {7}\<rparr>), \<lparr>counts = AList.update ''Car'' 1 zero_counts, status = traffic_status 1\<rparr>) \<and>
   counts \<lparr>counts = AList.update ''Car'' 1 zero_counts, status = traffic_status 1\<rparr> = cumulative_counts (initial_shared\<lparr>track_history := [(7, [(50, 95), (50, 105)]), (9, [(50, 40)])],
       cumulative_counts := AList.update ''Car'' 1 zero_counts, counted_ids := {7}\<rparr>) \<and>
   (\<exists>car bus truck person bicycle.
      map_of (counts \<lparr>counts = AList.update ''Car'' 1 zero_counts, status = traffic_status 1\<rparr>) ''Car'' = Some car \<and> map_of (counts \<lparr>counts = AList.update ''Car'' 1 zero_counts, status = traffic_status 1\<rparr>) ''Bus'' = Some bus \<and>
      map_of (counts \<lparr>counts = AList.update ''Car'' 1 zero_counts, status = traffic_status 1\<rparr>) ''Truck'' = Some truck \<and>
      map_of (counts \<lparr>counts = AList.update ''Car'' 1 zero_counts, status = traffic_status 1\<rparr>) ''Person'' = Some person \<and>
      map_of (counts \<lparr>counts = AList.update ''Car'' 1 zero_counts, status = traffic_status 1\<rparr>) ''Bicycle'' = Some bicycle \<and>
      density (status \<lparr>counts = AList.update ''Car'' 1 zero_counts, status = traffic_status 1\<rparr>) = car + bus + truck + person + bicycle \<and>
      status \<lparr>counts = AList.update ''Car'' 1 zero_counts, status = traffic_status 1\<rparr> = traffic_status (car + bus + truck + person + bicycle)) \<and>
   process_frame 100 [scenario_row 7 2 105, scenario_row 9 2 40] (initial_shared\<lparr>track_history := [(7, [(50, 95)])]\<rparr>) = Inr ((initial_shared\<lparr>track_history := [(7, [(50, 95), (50, 105)]), (9, [(50, 40)])],
       cumulative_counts := AList.update ''Car'' 1 zero_counts, counted_ids := {7}\<rparr>), \<lparr>counts = AList.update ''Car'' 1 zero_counts, status = traffic_status 1\<rparr>) \<and>
   process_frame 100 [] (initial_shared\<lparr>cumulative_counts := AList.update ''Car'' 1 zero_counts, counted_ids := {7}\<rparr>) = Inr ((initial_shared\<lparr>cumulative_counts := AList.update ''Car'' 1 zero_counts, counted_ids := {7}\<rparr>), \<lparr>counts = AList.update ''Car'' 1 zero_counts, status = traffic_status 1\<rparr>) \<and>
   cumulative_counts (initial_shared\<lparr>track_history := [(7, [(50, 95), (50, 105)]), (9, [(50, 40)])],
       cumulative_counts := AList.update ''Car'' 1 zero_counts, counted_ids := {7}\<rparr>) = cumulative_counts (initial_shared\<lparr>cumulative_counts := AList.update ''Car'' 1 zero_counts, counted_ids := {7}\<rparr>) \<and>
   has_class_keys (cumulative_counts initial_shared) \<and>
   (\<exists>s3' out3. process_frame 100 [scenario_row 7 2 105, scenario_row 9 2 40] initial_shared = Inr (s3', out3)) \<and>
   current_density [scenario_row 7 2 105, scenario_row 9 2 40] = 2 \<and> density (status \<lparr>counts = AList.update ''Car'' 1 zero_counts, status = traffic_status 1\<rparr>) = 1"
proof -
  have h1: "process_frame 100 [scenario_row 7 2 105, scenario_row 9 2 40] (initial_shared\<lparr>track_history := [(7, [(50, 95)])]\<rparr>)
     = Inr ((initial_shared\<lparr>track_history := [(7, [(50, 95), (50, 105)]), (9, [(50, 40)])],
       cumulative_counts := AList.update ''Car'' 1 zero_counts, counted_ids := {7}\<rparr>), \<lparr>counts = AList.update ''Car'' 1 zero_counts, status = traffic_status 1\<rparr>)"
    by (simp add: scenario_defs process_frame_def cleanup_tracks_def total_cumulative_def)
  have h2: "process_frame 100 [scenario_row 7 2 105, scenario_row 9 2 40] (initial_shared\<lparr>track_history := [(7, [(50, 95)])]\<rparr>) = Inr ((initial_shared\<lparr>track_history := [(7, [(50, 95), (50, 105)]), (9, [(50, 40)])],
       cumulative_counts := AList.update ''Car'' 1 zero_counts, counted_ids := {7}\<rparr>), \<lparr>counts = AList.update ''Car'' 1 zero_counts, status = traffic_status 1\<rparr>) \<and>
   process_frame 100 [] (initial_shared\<lparr>cumulative_counts := AList.update ''Car'' 1 zero_counts, counted_ids := {7}\<rparr>) = Inr ((initial_shared\<lparr>cumulative_counts := AList.update ''Car'' 1 zero_counts, counted_ids := {7}\<rparr>), \<lparr>counts = AList.update ''Car'' 1 zero_counts, status = traffic_status 1\<rparr>) \<and>
   cumulative_counts (initial_shared\<lparr>track_history := [(7, [(50, 95), (50, 105)]), (9, [(50, 40)])],
       cumulative_counts := AList.update ''Car'' 1 zero_counts, counted_ids := {7}\<rparr>) = cumulative_counts (initial_shared\<lparr>cumulative_counts := AList.update ''Car'' 1 zero_counts, counted_ids := {7}\<rparr>)"
    by (simp add: scenario_defs process_frame_def cleanup_tracks_def total_cumulative_def)
  have h3: "has_class_keys (cumulative_counts initial_shared)"
    by (simp add: initial_shared_def zero_counts_total)
  have x: "current_density [scenario_row 7 2 105, scenario_row 9 2 40] = 2 \<and> density (status \<lparr>counts = AList.update ''Car'' 1 zero_counts, status = traffic_status 1\<rparr>) = 1"
    by (simp add: current_density_def scenario_row_def density_traffic_status)
  note T = density_is_cumulative_total [where ly = 100 and dets = "[scenario_row 7 2 105, scenario_row 9 2 40]" and s = "(initial_shared\<lparr>track_history := [(7, [(50, 95)])]\<rparr>)"
      and s' = "(initial_shared\<lparr>track_history := [(7, [(50, 95), (50, 105)]), (9, [(50, 40)])],
       cumulative_counts := AList.update ''Car'' 1 zero_counts, counted_ids := {7}\<rparr>)" and out = "\<lparr>counts = AList.update ''Car'' 1 zero_counts, status = traffic_status 1\<rparr>"
      and ?ly1.0 = 100 and ?dets1.0 = "[scenario_row 7 2 105, scenario_row 9 2 40]" and ?s1.0 = "(initial_shared\<lparr>track_history := [(7, [(50, 95)])]\<rparr>)" and s1' = "(initial_shared\<lparr>track_history := [(7, [(50, 95), (50, 105)]), (9, [(50, 40)])],
       cumulative_counts := AList.update ''Car'' 1 zero_counts, counted_ids := {7}\<rparr>)" and ?out1.0 = "\<lparr>counts = AList.update ''Car'' 1 zero_counts, status = traffic_status 1\<rparr>"
      and ?ly2.0 = 100 and ?dets2.0 = "[]" and ?s2.0 = "(initial_shared\<lparr>cumulative_counts := AList.update ''Car'' 1 zero_counts, counted_ids := {7}\<rparr>)" and s2' = "(initial_shared\<lparr>cumulative_counts := AList.update ''Car'' 1 zero_counts, counted_ids := {7}\<rparr>)" and ?out2.0 = "\<lparr>counts = AList.update ''Car'' 1 zero_counts, status = traffic_status 1\<rparr>"
      and ?s3.0 = initial_shared and ?ly3.0 = 100 and ?dets3.0 = "[scenario_row 7 2 105, scenario_row 9 2 40]"]
  from T h1 have k1: "counts \<lparr>counts = AList.update ''Car'' 1 zero_counts, status = traffic_status 1\<rparr> = cumulative_counts (initial_shared\<lparr>track_history := [(7, [(50, 95), (50, 105)]), (9, [(50, 40)])],
       cumulative_counts := AList.update ''Car'' 1 zero_counts, counted_ids := {7}\<rparr>) \<and>
   (\<exists>car bus truck person bicycle.
      map_of (counts \<lparr>counts = AList.update ''Car'' 1 zero_counts, status = traffic_status 1\<rparr>) ''Car'' = Some car \<and> map_of (counts \<lparr>counts = AList.update ''Car'' 1 zero_counts, status = traffic_status 1\<rparr>) ''Bus'' = Some bus \<and>
      map_of (counts \<lparr>counts = AList.update ''Car'' 1 zero_counts, status = traffic_status 1\<rparr>) ''Truck'' = Some truck \<and>
      map_of (counts \<lparr>counts = AList.update ''Car'' 1 zero_counts, status = traffic_status 1\<rparr>) ''Person'' = Some person \<and>
      map_of (counts \<lparr>counts = AList.update ''Car'' 1 zero_counts, status = traffic_status 1\<rparr>) ''Bicycle'' = Some bicycle \<and>
      density (status \<lparr>counts = AList.update ''Car'' 1 zero_counts, status = traffic_status 1\<rparr>) = car + bus + truck + person + bicycle \<and>
      status \<lparr>counts = AList.update ''Car'' 1 zero_counts, status = traffic_status 1\<rparr> = traffic_status (car + bus + truck + person + bicycle))" by blast
  from T h3 have k3: "(\<exists>s3' out3. process_frame 100 [scenario_row 7 2 105, scenario_row 9 2 40] initial_shared = Inr (s3', out3))" by blast
  from h1 k1 h2 h3 k3 x show ?thesis by blast
qed

subsection \<open>The reset\<close>



subsection \<open>The total and the classes\<close>

text \<open>
  C2 (the code on a motorcycle). The total of lines 206-212 adds the counts of Car, Bus,
  Truck, Person and Bicycle and leaves out Motorcycle, which is class 3 of
  \<open>TARGET_CLASSES\<close>: after a motorcycle has crossed the line in the second of two
  cycles, the counts sum to 1 while the total, and the emitted status, are those of 0.
\<close>

theorem motorcycle_left_out_of_total:
  "cycle (frame_height scenario_env) (Frame [scenario_row 4 3 95])
       (initial_shared, scenario_worker)
     = Inr ((initial_shared\<lparr>track_history := [(4, [(50, 95)])]\<rparr>, scenario_worker),
            Some \<lparr>counts = zero_counts, status = traffic_status 0\<rparr>) \<and>
   cycle (frame_height scenario_env) (Frame [scenario_row 4 3 105])
       (initial_shared\<lparr>track_history := [(4, [(50, 95)])]\<rparr>, scenario_worker)
     = Inr ((initial_shared\<lparr>track_history := [(4, [(50, 95), (50, 105)])],
               cumulative_counts := AList.update ''Motorcycle'' 1 zero_counts,
               counted_ids := {4}\<rparr>, scenario_worker),
            Some \<lparr>counts = AList.update ''Motorcycle'' 1 zero_counts,
                  status = traffic_status 0\<rparr>) \<and>
   total_cumulative (AList.update ''Motorcycle'' 1 zero_counts) = Inr 0 \<and>
   counts_total (AList.update ''Motorcycle'' 1 zero_counts) = 1 \<and>
   map_of TARGET_CLASSES 3 = Some ''Motorcycle''"
  by (simp add: scenario_defs cycle_def consume_reset_def process_frame_def
      cleanup_tracks_def total_cumulative_def counts_total_def)

end
